theory Spec2Isabelle
  imports Complex_Main "HOL-Library.Word" "HOL-Library.Sublist"
begin

section \<open>JavaScript values used by the task manager\<close>

text \<open>
  A JavaScript string is a sequence of UTF-16 code units, and \<open>length\<close> counts code
  units. String literals of the source are written \<open>js_str ''...''\<close>.
\<close>

type_synonym jsstring = "16 word list"

definition js_str :: "string \<Rightarrow> jsstring" where
  "js_str s = map of_char s"

text \<open>
  \<open>String.prototype.trim\<close> removes WhiteSpace and LineTerminator code points from both
  ends: TAB, LF, VT, FF, CR, SP, NBSP, U+1680, U+2000..U+200A, U+2028, U+2029, U+202F,
  U+205F, U+3000 and U+FEFF.
\<close>

definition isWhiteSpace :: "16 word \<Rightarrow> bool" where
  "isWhiteSpace c \<longleftrightarrow>
     c \<in> {0x0009, 0x000A, 0x000B, 0x000C, 0x000D, 0x0020, 0x00A0, 0x1680,
          0x2028, 0x2029, 0x202F, 0x205F, 0x3000, 0xFEFF}
     \<or> (0x2000 \<le> c \<and> c \<le> 0x200A)"

definition trim :: "jsstring \<Rightarrow> jsstring" where
  "trim s = rev (dropWhile isWhiteSpace (rev (dropWhile isWhiteSpace s)))"

text \<open>
  A JavaScript number is an IEEE 754 binary64 value; the finite ones are rationals. The
  sum, difference or quotient of two numbers is the exact result rounded to the nearest
  binary64 value, ties to even (\<open>fl64\<close>): 53 significant bits in the binade of the value, and the fixed
  spacing \<open>2^-1074\<close> below \<open>2^-1022\<close>. Overflow to \<open>Infinity\<close> (from \<open>2^1024\<close> on) is
  not part of the model: the time values of a \<open>Date\<close> stay below \<open>8.64e15\<close>.
\<close>

function bit_length :: "int \<Rightarrow> int" where
  "bit_length n = (if n \<le> 0 then 0 else 1 + bit_length (n div 2))"
  by pat_completeness auto
termination
  by (relation "measure nat") auto

declare bit_length.simps [simp del]

definition binade :: "rat \<Rightarrow> int" where
  "binade x =
     (if 1 \<le> \<bar>x\<bar> then bit_length \<lfloor>\<bar>x\<bar>\<rfloor> - 1
      else - bit_length (\<lceil>1 / \<bar>x\<bar>\<rceil> - 1))"

definition pow2 :: "int \<Rightarrow> rat" where
  "pow2 e = (if 0 \<le> e then 2 ^ nat e else 1 / 2 ^ nat (- e))"

definition roundTiesToEven :: "rat \<Rightarrow> int" where
  "roundTiesToEven y =
     (let n = \<lfloor>y\<rfloor>; d = y - of_int n
      in if d < 1 / 2 then n else if 1 / 2 < d then n + 1 else if even n then n else n + 1)"

definition fl64 :: "rat \<Rightarrow> rat" where
  "fl64 x =
     (if x = 0 then 0
      else let ulp = pow2 (max (binade x) (- 1022) - 52)
           in of_int (roundTiesToEven (x / ulp)) * ulp)"

definition js_add :: "rat \<Rightarrow> rat \<Rightarrow> rat" where
  "js_add a b = fl64 (a + b)"

definition js_sub :: "rat \<Rightarrow> rat \<Rightarrow> rat" where
  "js_sub a b = fl64 (a - b)"

definition js_div :: "rat \<Rightarrow> rat \<Rightarrow> rat" where
  "js_div a b = fl64 (a / b)"

text \<open>
  Number-to-string conversion of a non-negative integer (decimal digits; the values
  printed by this program are day counts, far below the \<open>1e21\<close> where JavaScript
  switches to exponent notation).
\<close>

function num_str :: "nat \<Rightarrow> jsstring" where
  "num_str n = (if n < 10 then [of_nat (48 + n)]
                else num_str (n div 10) @ [of_nat (48 + n mod 10)])"
  by pat_completeness auto
termination
  by (relation "measure id") auto

declare num_str.simps [simp del]

section \<open>The task entity (TaskContext)\<close>

text \<open>
  A task object as \<open>addTask\<close> builds it. The fields \<open>id\<close> and \<open>text\<close> of the source are
  \<open>id_task\<close> and \<open>text_task\<close> here. The id is a JavaScript number; \<open>null\<close> is \<open>None\<close>.
\<close>

record task =
  id_task :: rat
  text_task :: jsstring
  description :: jsstring
  priority :: jsstring
  dueDate :: "jsstring option"
  completed :: bool
  createdAt :: jsstring
  completedAt :: "jsstring option"

text \<open>
  The argument \<open>updates\<close> of \<open>updateTask\<close>: an object whose own properties are spread over
  the task. A field that the object does not have is \<open>None\<close>; for the two nullable fields
  \<open>Some None\<close> is a property holding \<open>null\<close>.
\<close>

record updates =
  id_upd :: "rat option"
  text_upd :: "jsstring option"
  description_upd :: "jsstring option"
  priority_upd :: "jsstring option"
  dueDate_upd :: "jsstring option option"
  completed_upd :: "bool option"
  createdAt_upd :: "jsstring option"
  completedAt_upd :: "jsstring option option"

text \<open>The object spread \<open>{ ...task, ...updates }\<close>: properties of \<open>updates\<close> win.\<close>

definition spread :: "task \<Rightarrow> updates \<Rightarrow> task" where
  "spread t u =
     \<lparr> id_task = (case id_upd u of None \<Rightarrow> id_task t | Some v \<Rightarrow> v),
       text_task = (case text_upd u of None \<Rightarrow> text_task t | Some v \<Rightarrow> v),
       description = (case description_upd u of None \<Rightarrow> description t | Some v \<Rightarrow> v),
       priority = (case priority_upd u of None \<Rightarrow> priority t | Some v \<Rightarrow> v),
       dueDate = (case dueDate_upd u of None \<Rightarrow> dueDate t | Some v \<Rightarrow> v),
       completed = (case completed_upd u of None \<Rightarrow> completed t | Some v \<Rightarrow> v),
       createdAt = (case createdAt_upd u of None \<Rightarrow> createdAt t | Some v \<Rightarrow> v),
       completedAt = (case completedAt_upd u of None \<Rightarrow> completedAt t | Some v \<Rightarrow> v) \<rparr>"

section \<open>Repository operations\<close>

text \<open>
  Every operation is a functional state update \<open>setTasks(prevTasks => ...)\<close>; the model is
  the function from \<open>prevTasks\<close> to the new array. \<open>toggleTask\<close> reads the clock with
  \<open>new Date().toISOString()\<close>; that string is the argument \<open>isoNow\<close>.
\<close>

text \<open>
  What \<open>addTask\<close> reads from the runtime during one call: \<open>Date.now()\<close> (milliseconds
  since the epoch), \<open>Math.random()\<close> (a number in \<open>[0, 1)\<close>) and
  \<open>new Date().toISOString()\<close>.
\<close>

record runtime =
  dateNow :: int
  mathRandom :: rat
  isoString :: jsstring

text \<open>
  The argument \<open>taskData\<close> of \<open>addTask\<close>: \<open>text\<close> is required, the other properties may
  be missing (\<open>undefined\<close> or \<open>null\<close>, here \<open>None\<close>).
\<close>

record taskData =
  text_data :: jsstring
  description_data :: "jsstring option"
  priority_data :: "jsstring option"
  dueDate_data :: "jsstring option"

text \<open>The id expression \<open>Date.now() + Math.random()\<close>.\<close>

definition newId :: "runtime \<Rightarrow> rat" where
  "newId rt = js_add (of_int (dateNow rt)) (mathRandom rt)"

text \<open>
  The object literal \<open>newTask\<close>. \<open>a || b\<close> is \<open>b\<close> when \<open>a\<close> is \<open>undefined\<close>, \<open>null\<close> or the
  empty string.
\<close>

definition newTask :: "runtime \<Rightarrow> taskData \<Rightarrow> task" where
  "newTask rt taskData =
     \<lparr> id_task = newId rt,
       text_task = trim (text_data taskData),
       description = (case description_data taskData of
                        None \<Rightarrow> []
                      | Some d \<Rightarrow> if trim d = [] then [] else trim d),
       priority = (case priority_data taskData of
                     None \<Rightarrow> js_str ''medium''
                   | Some p \<Rightarrow> if p = [] then js_str ''medium'' else p),
       dueDate = (case dueDate_data taskData of
                    None \<Rightarrow> None
                  | Some d \<Rightarrow> if d = [] then None else Some d),
       completed = False,
       createdAt = isoString rt,
       completedAt = None \<rparr>"

definition addTask :: "runtime \<Rightarrow> taskData \<Rightarrow> task list \<Rightarrow> task list" where
  "addTask rt taskData prevTasks = prevTasks @ [newTask rt taskData]"

definition toggleTask :: "jsstring \<Rightarrow> rat \<Rightarrow> task list \<Rightarrow> task list" where
  "toggleTask isoNow i prevTasks =
     map (\<lambda>task. if id_task task = i
                  then task\<lparr> completed := \<not> completed task,
                             completedAt := (if \<not> completed task then Some isoNow else None) \<rparr>
                  else task) prevTasks"

definition updateTask :: "rat \<Rightarrow> updates \<Rightarrow> task list \<Rightarrow> task list" where
  "updateTask i u prevTasks =
     map (\<lambda>task. if id_task task = i then spread task u else task) prevTasks"

definition deleteTask :: "rat \<Rightarrow> task list \<Rightarrow> task list" where
  "deleteTask i prevTasks = filter (\<lambda>task. id_task task \<noteq> i) prevTasks"

definition clearCompleted :: "task list \<Rightarrow> task list" where
  "clearCompleted prevTasks = filter (\<lambda>task. \<not> completed task) prevTasks"

text \<open>The \<open>switch\<close> of \<open>getFilteredTasks\<close>, with its \<open>default\<close> branch.\<close>

definition getFilteredTasks :: "jsstring \<Rightarrow> task list \<Rightarrow> task list" where
  "getFilteredTasks flt tasks =
     (if flt = js_str ''completed'' then filter (\<lambda>task. completed task) tasks
      else if flt = js_str ''pending'' then filter (\<lambda>task. \<not> completed task) tasks
      else tasks)"

text \<open>A sequence of \<open>addTask\<close> calls, each with its own reading of the runtime.\<close>

definition addTasks :: "(runtime \<times> taskData) list \<Rightarrow> task list \<Rightarrow> task list" where
  "addTasks calls tasks = foldl (\<lambda>ts (rt, d). addTask rt d ts) tasks calls"

text \<open>The calls a client can make on the provider, and a run of them.\<close>

datatype operation =
    AddTask runtime taskData
  | ToggleTask jsstring rat
  | UpdateTask rat updates
  | DeleteTask rat
  | ClearCompleted

fun apply_op :: "operation \<Rightarrow> task list \<Rightarrow> task list" where
  "apply_op (AddTask rt d) ts = addTask rt d ts"
| "apply_op (ToggleTask isoNow i) ts = toggleTask isoNow i ts"
| "apply_op (UpdateTask i u) ts = updateTask i u ts"
| "apply_op (DeleteTask i) ts = deleteTask i ts"
| "apply_op ClearCompleted ts = clearCompleted ts"

definition run :: "operation list \<Rightarrow> task list \<Rightarrow> task list" where
  "run ops tasks = foldl (\<lambda>ts op. apply_op op ts) tasks ops"

text \<open>
  An operation that leaves the completion fields to \<open>toggleTask\<close>: every operation except an
  \<open>updateTask\<close> whose \<open>updates\<close> object has a \<open>completed\<close> or a \<open>completedAt\<close> property.
\<close>

fun leaves_completion :: "operation \<Rightarrow> bool" where
  "leaves_completion (UpdateTask i u) = (completed_upd u = None \<and> completedAt_upd u = None)"
| "leaves_completion _ = True"

text \<open>
  Putting two position-tagged views back together by original position: the entry with the
  smaller position comes first.
\<close>

fun interleave_by_position :: "(nat \<times> 'a) list \<Rightarrow> (nat \<times> 'a) list \<Rightarrow> (nat \<times> 'a) list" where
  "interleave_by_position [] ys = ys"
| "interleave_by_position xs [] = xs"
| "interleave_by_position (x # xs) (y # ys) =
     (if fst x \<le> fst y then x # interleave_by_position xs (y # ys)
      else y # interleave_by_position (x # xs) ys)"

section \<open>Due date status (TaskItem)\<close>

text \<open>
  The memoised \<open>dueDateStatus\<close> of a task item. \<open>new Date(task.dueDate)\<close> is read through
  \<open>dateParse\<close> (the time value in milliseconds, \<open>None\<close> for an invalid date, whose time
  value is \<open>NaN\<close>), \<open>new Date()\<close> is the time value \<open>now\<close>, and
  \<open>dueDate.toLocaleDateString()\<close> is \<open>toLocaleDateString\<close>. With \<open>NaN\<close> every comparison
  is false, so an invalid date reaches the last branch, where it prints as
  \<open>Invalid Date\<close>. Time values are integers of at most \<open>8.64e15\<close> in absolute value,
  so they are binary64 values; their difference and its quotient by the milliseconds of a
  day are binary64 operations, and \<open>Math.ceil\<close> and \<open>Math.abs\<close> are exact.
\<close>

record dueStatus =
  status :: jsstring
  label :: jsstring
  class_name :: jsstring

definition dueDateStatus ::
    "(jsstring \<Rightarrow> int option) \<Rightarrow> (int \<Rightarrow> jsstring) \<Rightarrow> int \<Rightarrow> task \<Rightarrow> dueStatus option" where
  "dueDateStatus dateParse toLocaleDateString now task =
     (case dueDate task of
        None \<Rightarrow> None
      | Some s \<Rightarrow>
          if s = [] then None
          else (case dateParse s of
                  None \<Rightarrow>
                    Some \<lparr> status = js_str ''later'',
                           label = js_str ''Due '' @ js_str ''Invalid Date'',
                           class_name = js_str ''due-upcoming'' \<rparr>
                | Some dueTime \<Rightarrow>
                    let diffTime = js_sub (of_int dueTime) (of_int now);
                        diffDays = \<lceil>js_div diffTime (1000 * 60 * 60 * 24)\<rceil>
                    in if diffDays < 0 then
                         Some \<lparr> status = js_str ''overdue'',
                                label = js_str ''Overdue by '' @ num_str (nat \<bar>diffDays\<bar>)
                                          @ js_str '' day''
                                          @ (if \<bar>diffDays\<bar> \<noteq> 1 then js_str ''s'' else []),
                                class_name = js_str ''due-overdue'' \<rparr>
                       else if diffDays = 0 then
                         Some \<lparr> status = js_str ''today'', label = js_str ''Due today'',
                                class_name = js_str ''due-today'' \<rparr>
                       else if diffDays \<le> 3 then
                         Some \<lparr> status = js_str ''soon'',
                                label = js_str ''Due in '' @ num_str (nat diffDays)
                                          @ js_str '' day''
                                          @ (if diffDays \<noteq> 1 then js_str ''s'' else []),
                                class_name = js_str ''due-upcoming'' \<rparr>
                       else
                         Some \<lparr> status = js_str ''later'',
                                label = js_str ''Due '' @ toLocaleDateString dueTime,
                                class_name = js_str ''due-upcoming'' \<rparr>))"

section \<open>Form validation (TaskForm)\<close>

text \<open>
  The form state: four strings. \<open>today.setHours(0, 0, 0, 0)\<close> moves a time value to the
  start of its local day; \<open>tz\<close> is the offset of local time from UTC in milliseconds
  (local = UTC + \<open>tz\<close>), constant over the day.
\<close>

record formData =
  text_form :: jsstring
  description_form :: jsstring
  priority_form :: jsstring
  dueDate_form :: jsstring

record formErrors =
  text_error :: "jsstring option"
  description_error :: "jsstring option"
  dueDate_error :: "jsstring option"

definition setHours0 :: "int \<Rightarrow> int \<Rightarrow> int" where
  "setHours0 tz t = ((t + tz) div (1000 * 60 * 60 * 24)) * (1000 * 60 * 60 * 24) - tz"

definition newErrors :: "(jsstring \<Rightarrow> int option) \<Rightarrow> int \<Rightarrow> int \<Rightarrow> formData \<Rightarrow> formErrors" where
  "newErrors dateParse tz now formData =
     \<lparr> text_error =
         (if trim (text_form formData) = [] then Some (js_str ''Task title is required'')
          else if length (text_form formData) > 100
               then Some (js_str ''Title cannot exceed 100 characters'')
               else None),
       description_error =
         (if description_form formData \<noteq> [] \<and> length (description_form formData) > 300
          then Some (js_str ''Description cannot exceed 300 characters'')
          else None),
       dueDate_error =
         (if dueDate_form formData \<noteq> [] then
            (let today = setHours0 tz now
             in case dateParse (dueDate_form formData) of
                  None \<Rightarrow> None
                | Some dueTime \<Rightarrow>
                    if dueTime < today then Some (js_str ''Due date cannot be in the past'')
                    else None)
          else None) \<rparr>"

text \<open>
  \<open>validateForm\<close> stores \<open>newErrors\<close> and returns whether the object has no key.
\<close>

definition validateForm ::
    "(jsstring \<Rightarrow> int option) \<Rightarrow> int \<Rightarrow> int \<Rightarrow> formData \<Rightarrow> formErrors \<times> bool" where
  "validateForm dateParse tz now formData =
     (let e = newErrors dateParse tz now formData
      in (e, text_error e = None \<and> description_error e = None \<and> dueDate_error e = None))"

section \<open>Sample values\<close>

definition task_milk :: task where
  "task_milk =
     \<lparr> id_task = 1700000000000 + 1 / 4, text_task = js_str ''Buy milk'', description = [],
       priority = js_str ''medium'', dueDate = None, completed = False,
       createdAt = js_str ''2023-11-14T22:13:20.000Z'', completedAt = None \<rparr>"

definition task_done :: task where
  "task_done =
     \<lparr> id_task = 1700000000001 + 1 / 2, text_task = js_str ''Pay rent'', description = [],
       priority = js_str ''high'', dueDate = None, completed = True,
       createdAt = js_str ''2023-11-14T22:13:20.001Z'',
       completedAt = Some (js_str ''2023-11-15T08:00:00.000Z'') \<rparr>"

definition rt_a :: runtime where
  "rt_a = \<lparr> dateNow = 1700000000000, mathRandom = 1 / 4,
            isoString = js_str ''2023-11-14T22:13:20.000Z'' \<rparr>"

definition rt_b :: runtime where
  "rt_b = \<lparr> dateNow = 1700000000000, mathRandom = 1 / 4 + 1 / 2 ^ 20,
            isoString = js_str ''2023-11-14T22:13:20.000Z'' \<rparr>"

definition draft_milk :: taskData where
  "draft_milk = \<lparr> text_data = js_str ''  Buy milk '', description_data = None,
                  priority_data = None, dueDate_data = None \<rparr>"

definition draft_urgent :: taskData where
  "draft_urgent = \<lparr> text_data = js_str ''Call back'', description_data = Some (js_str '' asap ''),
                    priority_data = Some (js_str ''urgent''), dueDate_data = Some [] \<rparr>"

definition upd_completed :: updates where
  "upd_completed = \<lparr> id_upd = None, text_upd = None, description_upd = None,
                     priority_upd = None, dueDate_upd = None, completed_upd = Some True,
                     createdAt_upd = None, completedAt_upd = None \<rparr>"

definition upd_text :: updates where
  "upd_text = \<lparr> id_upd = None, text_upd = Some (js_str ''Buy oat milk''), description_upd = None,
                priority_upd = None, dueDate_upd = None, completed_upd = None,
                createdAt_upd = None, completedAt_upd = None \<rparr>"

definition draft_high :: taskData where
  "draft_high = \<lparr> text_data = js_str ''File taxes'', description_data = None,
                  priority_data = Some (js_str ''high''),
                  dueDate_data = Some (js_str ''2023-11-20'') \<rparr>"

definition task_due :: task where
  "task_due =
     \<lparr> id_task = 1700000000002 + 1 / 8, text_task = js_str ''File taxes'', description = [],
       priority = js_str ''high'', dueDate = Some (js_str ''2023-11-14''), completed = False,
       createdAt = js_str ''2023-11-10T09:00:00.000Z'', completedAt = None \<rparr>"

text \<open>Date-only strings of the samples, as \<open>new Date\<close> reads them: UTC midnight.\<close>

definition sample_dateParse :: "jsstring \<Rightarrow> int option" where
  "sample_dateParse s =
     (if s = js_str ''2023-11-14'' then Some 1699920000000
      else if s = js_str ''2023-11-15'' then Some 1700006400000
      else if s = js_str ''-271821-04-20T00:00:00.000Z'' then Some (- 8640000000000000)
      else None)"

text \<open>A task due at the earliest time value a \<open>Date\<close> can hold.\<close>

definition task_ancient :: task where
  "task_ancient =
     \<lparr> id_task = 1700000000003 + 1 / 16, text_task = js_str ''Found Rome'', description = [],
       priority = js_str ''low'', dueDate = Some (js_str ''-271821-04-20T00:00:00.000Z''),
       completed = False, createdAt = js_str ''2023-11-10T09:00:00.000Z'',
       completedAt = None \<rparr>"

definition sample_localeDate :: "int \<Rightarrow> jsstring" where
  "sample_localeDate t =
     (if t = 1699920000000 then js_str ''11/14/2023''
      else if t = 1700006400000 then js_str ''11/15/2023''
      else js_str ''?'')"

definition form_blank :: formData where
  "form_blank = \<lparr> text_form = replicate 101 0x20, description_form = [],
                  priority_form = js_str ''medium'', dueDate_form = [] \<rparr>"

definition form_today :: formData where
  "form_today = \<lparr> text_form = js_str ''File taxes'', description_form = js_str ''forms 1 and 2'',
                  priority_form = js_str ''high'', dueDate_form = js_str ''2023-11-14'' \<rparr>"

section \<open>Auxiliary facts\<close>

lemma task_done_neq_milk: "task_done \<noteq> task_milk"
  by (simp add: task_done_def task_milk_def)

text \<open>The rounding on known cases: \<open>0.1\<close>, \<open>0.1 + 0.2\<close> and \<open>2^53 + 1\<close>.\<close>

lemma fl64_examples:
  "fl64 (1 / 10) = 3602879701896397 / 2 ^ 55"
  "js_add (fl64 (1 / 10)) (fl64 (1 / 5)) = 5404319552844596 / 2 ^ 54"
  "fl64 (2 ^ 53 + 1) = 2 ^ 53"
  by code_simp+

lemma interleave_by_position_Nil2 [simp]: "interleave_by_position xs [] = xs"
  by (cases xs) simp_all

lemma interleave_filter:
  "sorted_wrt (<) (map fst zs) \<Longrightarrow>
   interleave_by_position (filter P zs) (filter (\<lambda>z. \<not> P z) zs) = zs"
proof (induction zs)
  case Nil
  then show ?case by simp
next
  case (Cons z zs)
  then have IH: "interleave_by_position (filter P zs) (filter (\<lambda>z. \<not> P z) zs) = zs"
    and lt: "\<And>y. y \<in> set zs \<Longrightarrow> fst z < fst y"
    by auto
  show ?case
  proof (cases "P z")
    case True
    show ?thesis
    proof (cases "filter (\<lambda>z. \<not> P z) zs")
      case Nil
      with IH True show ?thesis by simp
    next
      case (Cons y ys)
      then have "y \<in> set (filter (\<lambda>z. \<not> P z) zs)"
        by simp
      then have "y \<in> set zs"
        by simp
      then have "fst z \<le> fst y" using lt by fastforce
      with IH True Cons show ?thesis by simp
    qed
  next
    case False
    show ?thesis
    proof (cases "filter P zs")
      case Nil
      with IH False show ?thesis by simp
    next
      case (Cons y ys)
      then have "y \<in> set (filter P zs)"
        by simp
      then have "y \<in> set zs"
        by simp
      then have "\<not> fst y \<le> fst z" using lt by fastforce
      with IH False Cons show ?thesis by simp
    qed
  qed
qed

lemma sorted_enumerate: "sorted_wrt (<) (map fst (enumerate n xs))"
  by (simp add: sorted_wrt_iff_nth_less)

lemma map_snd_filter_enumerate:
  "map snd (filter (\<lambda>z. P (snd z)) (enumerate n xs)) = filter P xs"
  by (induction xs arbitrary: n) simp_all

lemma apply_op_completion:
  assumes "leaves_completion op"
    and "\<forall>t \<in> set ts. (completedAt t \<noteq> None) = completed t"
  shows "\<forall>t \<in> set (apply_op op ts). (completedAt t \<noteq> None) = completed t"
proof (cases op)
  case (AddTask rt d)
  with assms show ?thesis by (auto simp: addTask_def newTask_def)
next
  case (ToggleTask n i)
  with assms show ?thesis by (auto simp: toggleTask_def)
next
  case (UpdateTask i u)
  with assms show ?thesis by (auto simp: updateTask_def spread_def)
next
  case (DeleteTask i)
  with assms show ?thesis by (auto simp: deleteTask_def)
next
  case ClearCompleted
  with assms show ?thesis by (auto simp: clearCompleted_def)
qed

lemma run_completion:
  "\<forall>op \<in> set ops. leaves_completion op \<Longrightarrow>
   \<forall>t \<in> set ts. (completedAt t \<noteq> None) = completed t \<Longrightarrow>
   \<forall>t \<in> set (run ops ts). (completedAt t \<noteq> None) = completed t"
proof (induction ops arbitrary: ts)
  case Nil
  then show ?case by (simp add: run_def)
next
  case (Cons op ops)
  from Cons.prems have "\<forall>t \<in> set (apply_op op ts). (completedAt t \<noteq> None) = completed t"
    by (intro apply_op_completion) simp_all
  with Cons.IH [of "apply_op op ts"] Cons.prems(1)
  have "\<forall>t \<in> set (run ops (apply_op op ts)). (completedAt t \<noteq> None) = completed t"
    by simp
  then show ?case by (simp add: run_def)
qed

lemma addTasks_append: "addTasks calls ts = ts @ map (\<lambda>(rt, d). newTask rt d) calls"
  by (induction calls arbitrary: ts) (auto simp: addTasks_def addTask_def)

lemma id_task_newTask: "id_task (newTask rt d) = newId rt"
  by (simp add: newTask_def)

lemma newId_rt_a: "newId rt_a = 1700000000000 + 1 / 4"
  unfolding newId_def rt_a_def by code_simp

lemma newId_rt_b: "newId rt_b = 1700000000000 + 1 / 4"
  unfolding newId_def rt_b_def by code_simp

text \<open>Facts about binary64 rounding: integers below \<open>2^53\<close> are exact, and the error is at most half the spacing.\<close>

lemma bit_length_le: "n < 2 ^ k \<Longrightarrow> bit_length n \<le> int k"
proof (induction k arbitrary: n)
  case 0
  then show ?case by (simp add: bit_length.simps)
next
  case (Suc k)
  show ?case
  proof (cases "n \<le> 0")
    case True
    then show ?thesis by (simp add: bit_length.simps)
  next
    case False
    from Suc.prems have "n div 2 < 2 ^ k"
      by simp
    then have "bit_length (n div 2) \<le> int k"
      by (rule Suc.IH)
    with False show ?thesis
      by (subst bit_length.simps) simp
  qed
qed

lemma bit_length_nonneg: "0 \<le> bit_length n"
  by (induction n rule: bit_length.induct) (subst bit_length.simps, simp)

lemma binade_le:
  assumes "\<bar>x\<bar> < 2 ^ Suc k"
  shows "binade x \<le> int k"
proof (cases "1 \<le> \<bar>x\<bar>")
  case True
  from assms have "\<lfloor>\<bar>x\<bar>\<rfloor> < 2 ^ Suc k"
    by (simp add: floor_less_iff)
  then have "bit_length \<lfloor>\<bar>x\<bar>\<rfloor> \<le> int (Suc k)"
    by (rule bit_length_le)
  with True show ?thesis
    by (simp add: binade_def)
next
  case False
  with bit_length_nonneg [of "\<lceil>1 / \<bar>x\<bar>\<rceil> - 1"] show ?thesis
    by (simp add: binade_def)
qed

lemma pow2_nonpos: "e \<le> 0 \<Longrightarrow> pow2 e = 1 / 2 ^ nat (- e)"
  by (cases "e = 0") (simp_all add: pow2_def)

lemma roundTiesToEven_of_int: "roundTiesToEven (of_int n) = n"
  by (simp add: roundTiesToEven_def)

lemma roundTiesToEven_error: "\<bar>of_int (roundTiesToEven y) - y\<bar> \<le> 1 / 2"
proof -
  have "of_int \<lfloor>y\<rfloor> \<le> y" "y < of_int \<lfloor>y\<rfloor> + 1"
    by linarith+
  then show ?thesis
    by (auto simp: roundTiesToEven_def Let_def)
qed

text \<open>The spacing used by \<open>fl64\<close> at \<open>x\<close>.\<close>

lemma fl64_spacing:
  assumes "\<bar>x\<bar> < 2 ^ Suc k" and "k \<le> 52"
  shows "\<exists>m. 52 - k \<le> m \<and> pow2 (max (binade x) (- 1022) - 52) = 1 / 2 ^ m"
proof -
  define e where "e = max (binade x) (- 1022) - 52"
  from assms(1) have "binade x \<le> int k"
    by (rule binade_le)
  with assms(2) have e: "e \<le> int k - 52" "e \<le> 0"
    by (simp_all add: e_def)
  then have "pow2 e = 1 / 2 ^ nat (- e)"
    by (simp add: pow2_nonpos)
  moreover from e have "52 - k \<le> nat (- e)"
    by simp
  ultimately show ?thesis
    unfolding e_def by blast
qed

lemma fl64_of_int:
  assumes "\<bar>a\<bar> < 2 ^ 53"
  shows "fl64 (of_int a) = of_int a"
proof (cases "a = 0")
  case True
  then show ?thesis by (simp add: fl64_def)
next
  case False
  from assms have "(of_int \<bar>a\<bar> :: rat) < of_int (2 ^ 53)"
    by (simp only: of_int_less_iff)
  then have "\<bar>of_int a :: rat\<bar> < 2 ^ Suc 52"
    by simp
  then obtain m where m: "pow2 (max (binade (of_int a)) (- 1022) - 52) = 1 / 2 ^ m"
    using fl64_spacing [of "of_int a" 52] by auto
  have "(of_int a :: rat) / (1 / 2 ^ m) = of_int (a * 2 ^ m)"
    by simp
  then have "roundTiesToEven ((of_int a :: rat) / (1 / 2 ^ m)) = a * 2 ^ m"
    by (simp only: roundTiesToEven_of_int)
  with False show ?thesis
    by (simp add: fl64_def Let_def m)
qed

lemma fl64_error:
  assumes "\<bar>x\<bar> < 2 ^ Suc k" and "k \<le> 52"
  shows "\<bar>fl64 x - x\<bar> \<le> 1 / 2 ^ (53 - k)"
proof (cases "x = 0")
  case True
  then show ?thesis by (simp add: fl64_def)
next
  case False
  from assms obtain m where m: "52 - k \<le> m"
      "pow2 (max (binade x) (- 1022) - 52) = 1 / 2 ^ m"
    using fl64_spacing by blast
  define r where "r = roundTiesToEven (x / (1 / 2 ^ m))"
  have h: "\<bar>of_int r - x * 2 ^ m\<bar> \<le> 1 / 2"
    using roundTiesToEven_error [of "x / (1 / 2 ^ m)"] by (simp add: r_def)
  have "\<bar>of_int r - x * 2 ^ m\<bar> / 2 ^ m \<le> (1 / 2) / 2 ^ m"
    using divide_right_mono [OF h, of "2 ^ m"] by simp
  moreover have "\<bar>of_int r - x * 2 ^ m\<bar> / 2 ^ m = \<bar>of_int r / 2 ^ m - x\<bar>"
  proof -
    have "(of_int r - x * 2 ^ m) / 2 ^ m = of_int r / 2 ^ m - x"
      by (simp add: diff_divide_distrib)
    then have "\<bar>of_int r / 2 ^ m - x\<bar> = \<bar>(of_int r - x * 2 ^ m) / 2 ^ m\<bar>"
      by simp
    also have "\<dots> = \<bar>of_int r - x * 2 ^ m\<bar> / 2 ^ m"
      by (simp add: abs_divide)
    finally show ?thesis
      by simp
  qed
  ultimately have "\<bar>of_int r / 2 ^ m - x\<bar> \<le> 1 / 2 ^ Suc m"
    by simp
  also have "(1 :: rat) / 2 ^ Suc m \<le> 1 / 2 ^ (53 - k)"
  proof -
    from m(1) assms(2) have "53 - k \<le> Suc m"
      by simp
    then have "(2 :: rat) ^ (53 - k) \<le> 2 ^ Suc m"
      by (rule power_increasing) simp
    then show ?thesis
      by (simp add: frac_le)
  qed
  finally have "\<bar>of_int r / 2 ^ m - x\<bar> \<le> 1 / 2 ^ (53 - k)" .
  moreover have "fl64 x = of_int r / 2 ^ m"
    using False by (simp add: fl64_def Let_def m r_def)
  ultimately show ?thesis
    by simp
qed

lemma ceiling_fl64_days:
  fixes a :: int
  assumes "\<bar>a\<bar> < 2 ^ 53"
  shows "\<lceil>fl64 (of_int a / 86400000)\<rceil> = \<lceil>(of_int a :: rat) / 86400000\<rceil>"
proof -
  define x where "x = (of_int a :: rat) / 86400000"
  define n where "n = \<lceil>x\<rceil>"
  have xa: "of_int a = x * 86400000"
    by (simp add: x_def)
  from assms have "(of_int \<bar>a\<bar> :: rat) < of_int (2 ^ 53)"
    by (simp only: of_int_less_iff)
  then have "\<bar>x\<bar> * 86400000 < 9007199254740992"
    by (simp add: xa [symmetric] x_def)
  then have small: "\<bar>x\<bar> < 2 ^ Suc 26"
    by simp
  then have "\<bar>fl64 x - x\<bar> \<le> 1 / 2 ^ (53 - 26)"
    by (rule fl64_error) simp
  then have err: "\<bar>fl64 x - x\<bar> \<le> 1 / 134217728"
    by simp
  have lo: "of_int n - 1 < x" and hi: "x \<le> of_int n"
    unfolding n_def by linarith+
  from lo have "(of_int ((n - 1) * 86400000) :: rat) < of_int a"
    by (simp add: xa)
  then have "(n - 1) * 86400000 < a"
    by (simp only: of_int_less_iff)
  then have "(n - 1) * 86400000 + 1 \<le> a"
    by simp
  then have "(of_int ((n - 1) * 86400000 + 1) :: rat) \<le> of_int a"
    by (simp only: of_int_le_iff)
  then have lo': "of_int n - 1 + 1 / 86400000 \<le> x"
    by (simp add: xa)
  have above: "of_int n - 1 < fl64 x"
    using lo' err by linarith
  have below: "fl64 x \<le> of_int n"
  proof (cases "a = n * 86400000")
    case True
    then have xn: "x = of_int n"
      by (simp add: x_def)
    from small xn have "\<bar>of_int n :: rat\<bar> < 134217728"
      by simp
    then have "(of_int \<bar>n\<bar> :: rat) < of_int 134217728"
      by simp
    then have "\<bar>n\<bar> < 134217728"
      by (simp only: of_int_less_iff)
    then have "\<bar>n\<bar> < 2 ^ 53"
      by simp
    then have "fl64 (of_int n) = of_int n"
      by (rule fl64_of_int)
    then show ?thesis
      by (simp add: xn)
  next
    case False
    from hi have "(of_int a :: rat) \<le> of_int (n * 86400000)"
      by (simp add: xa)
    then have "a \<le> n * 86400000"
      by (simp only: of_int_le_iff)
    with False have "a \<le> n * 86400000 - 1"
      by simp
    then have "(of_int a :: rat) \<le> of_int (n * 86400000 - 1)"
      by (simp only: of_int_le_iff)
    then have "x \<le> of_int n - 1 / 86400000"
      by (simp add: xa)
    with err show ?thesis
      by linarith
  qed
  from above below have "\<lceil>fl64 x\<rceil> = n"
    by (intro ceiling_unique) simp_all
  then show ?thesis
    by (simp add: x_def n_def)
qed

lemma diffDays_exact:
  fixes due now k :: int
  assumes "\<bar>due - now\<bar> < 9007199254740992"
    and "(k - 1) * 86400000 < due - now" and "due - now \<le> k * 86400000"
  shows "\<lceil>js_div (js_sub (of_int due) (of_int now)) (1000 * 60 * 60 * 24)\<rceil> = k"
proof -
  from assms(1) have b: "\<bar>due - now\<bar> < 2 ^ 53"
    by simp
  have "js_sub (of_int due) (of_int now) = fl64 (of_int (due - now))"
    by (simp add: js_sub_def)
  also have "\<dots> = of_int (due - now)"
    using b by (rule fl64_of_int)
  finally have s: "js_sub (of_int due) (of_int now) = of_int (due - now)" .
  have "js_div (of_int (due - now)) (1000 * 60 * 60 * 24)
      = fl64 (of_int (due - now) / 86400000)"
    by (simp add: js_div_def)
  then have "\<lceil>js_div (of_int (due - now)) (1000 * 60 * 60 * 24)\<rceil>
      = \<lceil>(of_int (due - now) :: rat) / 86400000\<rceil>"
    using b by (simp only: ceiling_fl64_days)
  also have "\<dots> = k"
  proof (rule ceiling_unique)
    have "(of_int ((k - 1) * 86400000) :: rat) < of_int (due - now)"
      using assms(2) by (simp only: of_int_less_iff)
    then show "of_int k - 1 < (of_int (due - now) :: rat) / 86400000"
      by (simp add: pos_less_divide_eq)
    have "(of_int (due - now) :: rat) \<le> of_int (k * 86400000)"
      using assms(3) by (simp only: of_int_le_iff)
    then show "(of_int (due - now) :: rat) / 86400000 \<le> of_int k"
      by (simp add: pos_divide_le_eq)
  qed
  finally show ?thesis
    by (simp only: s)
qed

lemma dueDateStatus_of_diffDays:
  assumes "dueDate t = Some s" and "s \<noteq> []" and "dateParse s = Some due"
    and "\<lceil>js_div (js_sub (of_int due) (of_int now)) (1000 * 60 * 60 * 24)\<rceil> = k"
  shows "dueDateStatus dateParse fmt now t =
     (if k < 0 then
        Some \<lparr> status = js_str ''overdue'',
               label = js_str ''Overdue by '' @ num_str (nat \<bar>k\<bar>) @ js_str '' day''
                         @ (if \<bar>k\<bar> \<noteq> 1 then js_str ''s'' else []),
               class_name = js_str ''due-overdue'' \<rparr>
      else if k = 0 then
        Some \<lparr> status = js_str ''today'', label = js_str ''Due today'',
               class_name = js_str ''due-today'' \<rparr>
      else if k \<le> 3 then
        Some \<lparr> status = js_str ''soon'',
               label = js_str ''Due in '' @ num_str (nat k) @ js_str '' day''
                         @ (if k \<noteq> 1 then js_str ''s'' else []),
               class_name = js_str ''due-upcoming'' \<rparr>
      else
        Some \<lparr> status = js_str ''later'', label = js_str ''Due '' @ fmt due,
               class_name = js_str ''due-upcoming'' \<rparr>)"
  unfolding dueDateStatus_def Let_def
  by (simp only: assms option.case if_False)

lemma num_str_1: "num_str (Suc 0) = js_str ''1''"
  by (simp add: num_str.simps js_str_def)

lemma sample_diffDays_extreme:
  "\<lceil>js_div (js_sub (of_int (- 8640000000000000)) (of_int 8639999999999999))
      (1000 * 60 * 60 * 24)\<rceil> = - 200000000"
  by code_simp

lemma num_str_200000000: "num_str 200000000 = js_str ''200000000''"
  by (simp add: num_str.simps js_str_def)

lemma trim_eq_Nil: "trim s = [] \<longleftrightarrow> (\<forall>c \<in> set s. isWhiteSpace c)"
proof
  assume "trim s = []"
  then have "dropWhile isWhiteSpace (rev (dropWhile isWhiteSpace s)) = []"
    by (simp add: trim_def)
  then have all: "\<forall>c \<in> set (dropWhile isWhiteSpace s). isWhiteSpace c"
    by (simp add: dropWhile_eq_Nil_conv)
  have "dropWhile isWhiteSpace s = []"
  proof (rule ccontr)
    assume ne: "dropWhile isWhiteSpace s \<noteq> []"
    then have "\<not> isWhiteSpace (hd (dropWhile isWhiteSpace s))"
      by (rule hd_dropWhile)
    moreover from ne have "hd (dropWhile isWhiteSpace s) \<in> set (dropWhile isWhiteSpace s)"
      by (rule hd_in_set)
    ultimately show False
      using all by blast
  qed
  then show "\<forall>c \<in> set s. isWhiteSpace c"
    by (simp add: dropWhile_eq_Nil_conv)
next
  assume "\<forall>c \<in> set s. isWhiteSpace c"
  then have "dropWhile isWhiteSpace s = []"
    by (simp add: dropWhile_eq_Nil_conv)
  then show "trim s = []"
    by (simp add: trim_def del: dropWhile_eq_Nil_conv)
qed

lemma error_messages_differ:
  "js_str ''Task title is required'' \<noteq> js_str ''Title cannot exceed 100 characters''"
  by (simp add: js_str_def)

lemma before_local_midnight:
  fixes k tz now :: int
  assumes "0 \<le> tz" and "tz < 86400000"
  shows "k * 86400000 < setHours0 tz now \<longleftrightarrow> k < (now + tz) div 86400000"
proof -
  define T where "T = (now + tz) div 86400000"
  have s: "setHours0 tz now = T * 86400000 - tz"
    by (simp add: setHours0_def T_def)
  have "k * 86400000 < T * 86400000 - tz \<longleftrightarrow> k < T"
  proof
    assume a: "k * 86400000 < T * 86400000 - tz"
    show "k < T"
    proof (rule ccontr)
      assume "\<not> k < T"
      then have "T * 86400000 \<le> k * 86400000"
        by simp
      with a assms show False
        by linarith
    qed
  next
    assume "k < T"
    then have "k + 1 \<le> T"
      by simp
    then have "(k + 1) * 86400000 \<le> T * 86400000"
      by (simp only: mult_le_cancel_right) simp
    with assms show "k * 86400000 < T * 86400000 - tz"
      by (simp add: algebra_simps)
  qed
  then show ?thesis
    by (simp only: s T_def)
qed

lemma newErrors_today_west_of_UTC:
  "(1700000000000 + - 18000000) div 86400000 = (19675 :: int)
   \<and> sample_dateParse (dueDate_form form_today) = Some (19675 * 86400000)
   \<and> dueDate_error (newErrors sample_dateParse (- 18000000) 1700000000000 form_today)
       = Some (js_str ''Due date cannot be in the past'')"
  by (simp add: newErrors_def setHours0_def sample_dateParse_def form_today_def js_str_def)

section \<open>Completion invariant\<close>

text \<open>
  C1 (amended). In every collection reached from the empty one by \<open>addTask\<close>,
  \<open>toggleTask\<close>, \<open>deleteTask\<close>, \<open>clearCompleted\<close> and those \<open>updateTask\<close> calls whose
  \<open>updates\<close> object has neither a \<open>completed\<close> nor a \<open>completedAt\<close> property, every task has
  \<open>completedAt\<close> non-null if and only if \<open>completed\<close> is true. (\<open>updateTask\<close> spreads any
  \<open>updates\<close> over the task, so \<open>updateTask(id, {completed: true})\<close> leaves a completed task
  with \<open>completedAt\<close> null: the counterexample.)
\<close>

theorem completedAt_iff_completed:
  assumes "\<forall>op \<in> set ops. leaves_completion op"
  shows "\<forall>t \<in> set (run ops []). (completedAt t \<noteq> None) = completed t"
  using assms by (rule run_completion) simp

theorem completedAt_iff_completed_counterexample:
  "run [AddTask rt_a draft_milk, UpdateTask (newId rt_a) upd_completed] []
     = [(newTask rt_a draft_milk)\<lparr> completed := True \<rparr>]
   \<and> completed ((newTask rt_a draft_milk)\<lparr> completed := True \<rparr>)
   \<and> completedAt ((newTask rt_a draft_milk)\<lparr> completed := True \<rparr>) = None"
  by (simp add: run_def addTask_def updateTask_def spread_def newTask_def upd_completed_def)

theorem completedAt_iff_completed_witness:
  "leaves_completion (AddTask rt_a draft_milk)
   \<and> leaves_completion (UpdateTask (newId rt_a) upd_text)
   \<and> leaves_completion (ToggleTask (js_str ''2023-11-16T00:00:00.000Z'') (newId rt_a))
   \<and> run [AddTask rt_a draft_milk, UpdateTask (newId rt_a) upd_text,
           ToggleTask (js_str ''2023-11-16T00:00:00.000Z'') (newId rt_a)] []
      = [(newTask rt_a draft_milk)\<lparr> text_task := js_str ''Buy oat milk'', completed := True,
            completedAt := Some (js_str ''2023-11-16T00:00:00.000Z'') \<rparr>]
   \<and> (completedAt ((newTask rt_a draft_milk)\<lparr> text_task := js_str ''Buy oat milk'', completed := True,
            completedAt := Some (js_str ''2023-11-16T00:00:00.000Z'') \<rparr>) \<noteq> None)
      = completed ((newTask rt_a draft_milk)\<lparr> text_task := js_str ''Buy oat milk'', completed := True,
            completedAt := Some (js_str ''2023-11-16T00:00:00.000Z'') \<rparr>)"
proof -
  let ?ops = "[AddTask rt_a draft_milk, UpdateTask (newId rt_a) upd_text,
           ToggleTask (js_str ''2023-11-16T00:00:00.000Z'') (newId rt_a)]"
  let ?t = "(newTask rt_a draft_milk)\<lparr> text_task := js_str ''Buy oat milk'', completed := True,
            completedAt := Some (js_str ''2023-11-16T00:00:00.000Z'') \<rparr>"
  have l: "leaves_completion (AddTask rt_a draft_milk)"
      "leaves_completion (UpdateTask (newId rt_a) upd_text)"
      "leaves_completion (ToggleTask (js_str ''2023-11-16T00:00:00.000Z'') (newId rt_a))"
    by (simp_all add: upd_text_def)
  then have h: "\<forall>op \<in> set ?ops. leaves_completion op"
    by simp
  have r: "run ?ops [] = [?t]"
    by (simp add: run_def addTask_def updateTask_def toggleTask_def spread_def newTask_def
        upd_text_def)
  from completedAt_iff_completed [OF h] r
  have "(completedAt ?t \<noteq> None) = completed ?t"
    by simp
  with l r show ?thesis
    by blast
qed

section \<open>Adding tasks\<close>

text \<open>
  C2 (amended). After any sequence of \<open>addTask\<close> calls the collection is longer by the
  number of calls, and its ids are pairwise distinct exactly when the ids of the starting
  collection together with the numbers \<open>Date.now() + Math.random()\<close> computed by the calls
  are pairwise distinct. Nothing makes those numbers distinct: in the counterexample two
  calls in the same millisecond draw different random numbers whose sums with \<open>Date.now()\<close>
  round to the same binary64 value.
\<close>

theorem addTasks_length_and_ids:
  "length (addTasks calls ts) = length ts + length calls
   \<and> distinct (map id_task (addTasks calls ts))
       = distinct (map id_task ts @ map (\<lambda>(rt, d). newId rt) calls)"
proof -
  have a: "map id_task (map (\<lambda>(rt, d). newTask rt d) calls) = map (\<lambda>(rt, d). newId rt) calls"
    by (induction calls) (auto simp: id_task_newTask)
  have "map id_task (addTasks calls ts)
      = map id_task ts @ map id_task (map (\<lambda>(rt, d). newTask rt d) calls)"
    by (simp only: addTasks_append map_append)
  then have m: "map id_task (addTasks calls ts)
      = map id_task ts @ map (\<lambda>(rt, d). newId rt) calls"
    by (simp only: a)
  have "length (addTasks calls ts) = length ts + length calls"
    by (simp add: addTasks_append)
  then show ?thesis
    by (simp only: m simp_thms)
qed

theorem addTasks_length_and_ids_counterexample:
  "distinct (map id_task [])
   \<and> dateNow rt_a = dateNow rt_b
   \<and> mathRandom rt_a \<noteq> mathRandom rt_b
   \<and> \<not> distinct (map id_task (addTasks [(rt_a, draft_milk), (rt_b, draft_milk)] []))"
proof -
  have "map id_task (addTasks [(rt_a, draft_milk), (rt_b, draft_milk)] [])
      = [newId rt_a, newId rt_b]"
    by (simp add: addTasks_def addTask_def id_task_newTask)
  moreover have "dateNow rt_a = dateNow rt_b" "mathRandom rt_a \<noteq> mathRandom rt_b"
    by (simp_all add: rt_a_def rt_b_def)
  ultimately show ?thesis
    by (simp add: newId_rt_a newId_rt_b)
qed

text \<open>
  C3 (amended). \<open>addTask\<close> appends exactly one task, \<open>newTask\<close>, after the existing tasks,
  which stay as they are. Its \<open>text\<close> is the trimmed \<open>taskData.text\<close>, its \<open>description\<close> the
  trimmed \<open>taskData.description\<close> (empty when absent), its \<open>priority\<close> is
  \<open>taskData.priority\<close> whenever that is a non-empty string (in particular when it is one of
  low, medium, high) and medium when it is absent or empty, its \<open>dueDate\<close> is
  \<open>taskData.dueDate\<close> or null, \<open>completed\<close> is false and \<open>completedAt\<close> is null. (A priority
  outside low, medium, high is stored as given, not replaced by medium: the
  counterexample.)
\<close>

theorem addTask_appends_newTask:
  "addTask rt d ts = ts @ [newTask rt d]
   \<and> text_task (newTask rt d) = trim (text_data d)
   \<and> description (newTask rt d) = (case description_data d of None \<Rightarrow> [] | Some s \<Rightarrow> trim s)
   \<and> (\<forall>p. priority_data d = Some p \<and> p \<noteq> [] \<longrightarrow> priority (newTask rt d) = p)
   \<and> (\<forall>p. priority_data d = Some p
            \<and> p \<in> {js_str ''low'', js_str ''medium'', js_str ''high''}
          \<longrightarrow> priority (newTask rt d) = p)
   \<and> (priority_data d = None \<or> priority_data d = Some []
          \<longrightarrow> priority (newTask rt d) = js_str ''medium'')
   \<and> dueDate (newTask rt d)
        = (case dueDate_data d of None \<Rightarrow> None | Some s \<Rightarrow> if s = [] then None else Some s)
   \<and> completed (newTask rt d) = False
   \<and> completedAt (newTask rt d) = None"
proof -
  have "priority (newTask rt d) = p"
    if "priority_data d = Some p"
      and "p \<in> {js_str ''low'', js_str ''medium'', js_str ''high''}" for p
  proof -
    from that(2) have "p \<noteq> []"
      by (auto simp: js_str_def)
    with that(1) show ?thesis
      by (simp add: newTask_def)
  qed
  moreover have "description (newTask rt d)
      = (case description_data d of None \<Rightarrow> [] | Some s \<Rightarrow> trim s)"
    by (simp add: newTask_def split: option.split)
  moreover have "priority_data d = None \<or> priority_data d = Some []
          \<longrightarrow> priority (newTask rt d) = js_str ''medium''"
    by (auto simp: newTask_def)
  moreover have "\<forall>p. priority_data d = Some p \<and> p \<noteq> [] \<longrightarrow> priority (newTask rt d) = p"
    by (simp add: newTask_def)
  ultimately show ?thesis
    by (simp add: addTask_def newTask_def)
qed


theorem addTask_appends_newTask_counterexample:
  "priority_data draft_urgent = Some (js_str ''urgent'')
   \<and> js_str ''urgent'' \<notin> {js_str ''low'', js_str ''medium'', js_str ''high''}
   \<and> priority (last (addTask rt_a draft_urgent [task_done])) \<noteq> js_str ''medium''"
  by (simp add: addTask_def newTask_def draft_urgent_def js_str_def)

theorem addTask_appends_newTask_witness:
  "priority_data draft_urgent = Some (js_str ''urgent'') \<and> js_str ''urgent'' \<noteq> []
   \<and> priority (newTask rt_a draft_urgent) = js_str ''urgent''
   \<and> priority_data draft_high = Some (js_str ''high'')
   \<and> js_str ''high'' \<in> {js_str ''low'', js_str ''medium'', js_str ''high''}
   \<and> priority (newTask rt_a draft_high) = js_str ''high''
   \<and> priority_data draft_milk = None
   \<and> priority (newTask rt_a draft_milk) = js_str ''medium''
   \<and> text_task (newTask rt_a draft_milk) = js_str ''Buy milk''"
proof -
  have u: "priority_data draft_urgent = Some (js_str ''urgent'') \<and> js_str ''urgent'' \<noteq> []"
    by (simp add: draft_urgent_def js_str_def)
  have h: "priority_data draft_high = Some (js_str ''high'')
      \<and> js_str ''high'' \<in> {js_str ''low'', js_str ''medium'', js_str ''high''}"
    by (simp add: draft_high_def)
  have m: "priority_data draft_milk = None"
    by (simp add: draft_milk_def)
  have t: "trim (text_data draft_milk) = js_str ''Buy milk''"
    by (simp add: draft_milk_def trim_def isWhiteSpace_def js_str_def)
  from addTask_appends_newTask [of rt_a draft_urgent "[]"] u
  have 1: "priority (newTask rt_a draft_urgent) = js_str ''urgent''"
    by blast
  from addTask_appends_newTask [of rt_a draft_high "[]"] h
  have 2: "priority (newTask rt_a draft_high) = js_str ''high''"
    by blast
  from addTask_appends_newTask [of rt_a draft_milk "[]"] m
  have 3: "priority (newTask rt_a draft_milk) = js_str ''medium''"
    and 4: "text_task (newTask rt_a draft_milk) = trim (text_data draft_milk)"
    by blast+
  from u h m 1 2 3 4 t show ?thesis
    by simp
qed

section \<open>Due date classification\<close>

text \<open>
  C4 (amended). For a task whose \<open>dueDate\<close> is a date with time value \<open>due\<close>, and every
  \<open>now\<close> less than \<open>2^53\<close> milliseconds away from it, let \<open>d\<close> be the whole-day difference,
  the ceiling of \<open>(due - now)\<close> over one day (the integer with
  \<open>(d - 1) days < due - now \<le> d days\<close>). If \<open>d < 0\<close> the status is overdue with count
  \<open>|d|\<close>, pluralised unless the count is 1; if \<open>d = 0\<close> it is due today; if \<open>0 < d \<le> 3\<close>
  it is due in \<open>d\<close> days, pluralised likewise; if \<open>d > 3\<close> it shows the formatted due date.
  Without a \<open>dueDate\<close> there is no status. A \<open>dueDate\<close> that is the start of the UTC day
  before the UTC day of \<open>now\<close> gives overdue with count 1. (Beyond \<open>2^53\<close> milliseconds
  the binary64 difference is rounded and the count can differ from \<open>|d|\<close>; and the
  day before the local day of \<open>now\<close> need not be the UTC day before: the counterexample.)
\<close>

theorem dueDateStatus_by_day_difference:
  "(dueDate t = None \<longrightarrow> dueDateStatus dateParse fmt now t = None)
   \<and> (dueDate t = Some s \<and> s \<noteq> [] \<and> dateParse s = Some due
        \<and> \<bar>due - now\<bar> < 9007199254740992
        \<and> (d - 1) * 86400000 < due - now \<and> due - now \<le> d * 86400000
      \<longrightarrow> (d < 0 \<longrightarrow> dueDateStatus dateParse fmt now t =
              Some \<lparr> status = js_str ''overdue'',
                     label = js_str ''Overdue by '' @ num_str (nat \<bar>d\<bar>) @ js_str '' day''
                               @ (if \<bar>d\<bar> \<noteq> 1 then js_str ''s'' else []),
                     class_name = js_str ''due-overdue'' \<rparr>)
        \<and> (d = 0 \<longrightarrow> dueDateStatus dateParse fmt now t =
              Some \<lparr> status = js_str ''today'', label = js_str ''Due today'',
                     class_name = js_str ''due-today'' \<rparr>)
        \<and> (0 < d \<and> d \<le> 3 \<longrightarrow> dueDateStatus dateParse fmt now t =
              Some \<lparr> status = js_str ''soon'',
                     label = js_str ''Due in '' @ num_str (nat d) @ js_str '' day''
                               @ (if d \<noteq> 1 then js_str ''s'' else []),
                     class_name = js_str ''due-upcoming'' \<rparr>)
        \<and> (3 < d \<longrightarrow> dueDateStatus dateParse fmt now t =
              Some \<lparr> status = js_str ''later'', label = js_str ''Due '' @ fmt due,
                     class_name = js_str ''due-upcoming'' \<rparr>))
   \<and> (dueDate t = Some s \<and> s \<noteq> [] \<and> dateParse s = Some due
        \<and> due mod 86400000 = 0 \<and> now div 86400000 = due div 86400000 + 1
      \<longrightarrow> dueDateStatus dateParse fmt now t =
              Some \<lparr> status = js_str ''overdue'', label = js_str ''Overdue by 1 day'',
                     class_name = js_str ''due-overdue'' \<rparr>)"
proof -
  have unset: "dueDate t = None \<longrightarrow> dueDateStatus dateParse fmt now t = None"
    by (simp add: dueDateStatus_def)
  have chain: "dueDateStatus dateParse fmt now t =
     (if k < 0 then
        Some \<lparr> status = js_str ''overdue'',
               label = js_str ''Overdue by '' @ num_str (nat \<bar>k\<bar>) @ js_str '' day''
                         @ (if \<bar>k\<bar> \<noteq> 1 then js_str ''s'' else []),
               class_name = js_str ''due-overdue'' \<rparr>
      else if k = 0 then
        Some \<lparr> status = js_str ''today'', label = js_str ''Due today'',
               class_name = js_str ''due-today'' \<rparr>
      else if k \<le> 3 then
        Some \<lparr> status = js_str ''soon'',
               label = js_str ''Due in '' @ num_str (nat k) @ js_str '' day''
                         @ (if k \<noteq> 1 then js_str ''s'' else []),
               class_name = js_str ''due-upcoming'' \<rparr>
      else
        Some \<lparr> status = js_str ''later'', label = js_str ''Due '' @ fmt due,
               class_name = js_str ''due-upcoming'' \<rparr>)"
    if h: "dueDate t = Some s" "s \<noteq> []" "dateParse s = Some due"
      and b: "\<bar>due - now\<bar> < 9007199254740992"
      and lo: "(k - 1) * 86400000 < due - now" and hi: "due - now \<le> k * 86400000" for k
  proof -
    from b lo hi
    have "\<lceil>js_div (js_sub (of_int due) (of_int now)) (1000 * 60 * 60 * 24)\<rceil> = k"
      by (rule diffDays_exact)
    with h show ?thesis
      by (rule dueDateStatus_of_diffDays)
  qed
  have classify:
    "dueDate t = Some s \<and> s \<noteq> [] \<and> dateParse s = Some due
        \<and> \<bar>due - now\<bar> < 9007199254740992
        \<and> (d - 1) * 86400000 < due - now \<and> due - now \<le> d * 86400000
      \<longrightarrow> (d < 0 \<longrightarrow> dueDateStatus dateParse fmt now t =
              Some \<lparr> status = js_str ''overdue'',
                     label = js_str ''Overdue by '' @ num_str (nat \<bar>d\<bar>) @ js_str '' day''
                               @ (if \<bar>d\<bar> \<noteq> 1 then js_str ''s'' else []),
                     class_name = js_str ''due-overdue'' \<rparr>)
        \<and> (d = 0 \<longrightarrow> dueDateStatus dateParse fmt now t =
              Some \<lparr> status = js_str ''today'', label = js_str ''Due today'',
                     class_name = js_str ''due-today'' \<rparr>)
        \<and> (0 < d \<and> d \<le> 3 \<longrightarrow> dueDateStatus dateParse fmt now t =
              Some \<lparr> status = js_str ''soon'',
                     label = js_str ''Due in '' @ num_str (nat d) @ js_str '' day''
                               @ (if d \<noteq> 1 then js_str ''s'' else []),
                     class_name = js_str ''due-upcoming'' \<rparr>)
        \<and> (3 < d \<longrightarrow> dueDateStatus dateParse fmt now t =
              Some \<lparr> status = js_str ''later'', label = js_str ''Due '' @ fmt due,
                     class_name = js_str ''due-upcoming'' \<rparr>)"
  proof (intro impI, elim conjE)
    assume "dueDate t = Some s" "s \<noteq> []" "dateParse s = Some due"
      "\<bar>due - now\<bar> < 9007199254740992"
      "(d - 1) * 86400000 < due - now" "due - now \<le> d * 86400000"
    then have e: "dueDateStatus dateParse fmt now t =
     (if d < 0 then
        Some \<lparr> status = js_str ''overdue'',
               label = js_str ''Overdue by '' @ num_str (nat \<bar>d\<bar>) @ js_str '' day''
                         @ (if \<bar>d\<bar> \<noteq> 1 then js_str ''s'' else []),
               class_name = js_str ''due-overdue'' \<rparr>
      else if d = 0 then
        Some \<lparr> status = js_str ''today'', label = js_str ''Due today'',
               class_name = js_str ''due-today'' \<rparr>
      else if d \<le> 3 then
        Some \<lparr> status = js_str ''soon'',
               label = js_str ''Due in '' @ num_str (nat d) @ js_str '' day''
                         @ (if d \<noteq> 1 then js_str ''s'' else []),
               class_name = js_str ''due-upcoming'' \<rparr>
      else
        Some \<lparr> status = js_str ''later'', label = js_str ''Due '' @ fmt due,
               class_name = js_str ''due-upcoming'' \<rparr>)"
      by (rule chain)
    show "(d < 0 \<longrightarrow> dueDateStatus dateParse fmt now t =
              Some \<lparr> status = js_str ''overdue'',
                     label = js_str ''Overdue by '' @ num_str (nat \<bar>d\<bar>) @ js_str '' day''
                               @ (if \<bar>d\<bar> \<noteq> 1 then js_str ''s'' else []),
                     class_name = js_str ''due-overdue'' \<rparr>)
        \<and> (d = 0 \<longrightarrow> dueDateStatus dateParse fmt now t =
              Some \<lparr> status = js_str ''today'', label = js_str ''Due today'',
                     class_name = js_str ''due-today'' \<rparr>)
        \<and> (0 < d \<and> d \<le> 3 \<longrightarrow> dueDateStatus dateParse fmt now t =
              Some \<lparr> status = js_str ''soon'',
                     label = js_str ''Due in '' @ num_str (nat d) @ js_str '' day''
                               @ (if d \<noteq> 1 then js_str ''s'' else []),
                     class_name = js_str ''due-upcoming'' \<rparr>)
        \<and> (3 < d \<longrightarrow> dueDateStatus dateParse fmt now t =
              Some \<lparr> status = js_str ''later'', label = js_str ''Due '' @ fmt due,
                     class_name = js_str ''due-upcoming'' \<rparr>)"
      unfolding e
    proof (intro conjI impI)
      assume "d < 0"
      then show "(if d < 0 then
        Some \<lparr> status = js_str ''overdue'',
               label = js_str ''Overdue by '' @ num_str (nat \<bar>d\<bar>) @ js_str '' day''
                         @ (if \<bar>d\<bar> \<noteq> 1 then js_str ''s'' else []),
               class_name = js_str ''due-overdue'' \<rparr>
      else if d = 0 then
        Some \<lparr> status = js_str ''today'', label = js_str ''Due today'',
               class_name = js_str ''due-today'' \<rparr>
      else if d \<le> 3 then
        Some \<lparr> status = js_str ''soon'',
               label = js_str ''Due in '' @ num_str (nat d) @ js_str '' day''
                         @ (if d \<noteq> 1 then js_str ''s'' else []),
               class_name = js_str ''due-upcoming'' \<rparr>
      else
        Some \<lparr> status = js_str ''later'', label = js_str ''Due '' @ fmt due,
               class_name = js_str ''due-upcoming'' \<rparr>) =
          Some \<lparr> status = js_str ''overdue'',
                     label = js_str ''Overdue by '' @ num_str (nat \<bar>d\<bar>) @ js_str '' day''
                               @ (if \<bar>d\<bar> \<noteq> 1 then js_str ''s'' else []),
                     class_name = js_str ''due-overdue'' \<rparr>"
        by (simp only: if_True)
    next
      assume "d = 0"
      then show "(if d < 0 then
        Some \<lparr> status = js_str ''overdue'',
               label = js_str ''Overdue by '' @ num_str (nat \<bar>d\<bar>) @ js_str '' day''
                         @ (if \<bar>d\<bar> \<noteq> 1 then js_str ''s'' else []),
               class_name = js_str ''due-overdue'' \<rparr>
      else if d = 0 then
        Some \<lparr> status = js_str ''today'', label = js_str ''Due today'',
               class_name = js_str ''due-today'' \<rparr>
      else if d \<le> 3 then
        Some \<lparr> status = js_str ''soon'',
               label = js_str ''Due in '' @ num_str (nat d) @ js_str '' day''
                         @ (if d \<noteq> 1 then js_str ''s'' else []),
               class_name = js_str ''due-upcoming'' \<rparr>
      else
        Some \<lparr> status = js_str ''later'', label = js_str ''Due '' @ fmt due,
               class_name = js_str ''due-upcoming'' \<rparr>) =
          Some \<lparr> status = js_str ''today'', label = js_str ''Due today'',
                     class_name = js_str ''due-today'' \<rparr>"
        by simp
    next
      assume "0 < d \<and> d \<le> 3"
      then show "(if d < 0 then
        Some \<lparr> status = js_str ''overdue'',
               label = js_str ''Overdue by '' @ num_str (nat \<bar>d\<bar>) @ js_str '' day''
                         @ (if \<bar>d\<bar> \<noteq> 1 then js_str ''s'' else []),
               class_name = js_str ''due-overdue'' \<rparr>
      else if d = 0 then
        Some \<lparr> status = js_str ''today'', label = js_str ''Due today'',
               class_name = js_str ''due-today'' \<rparr>
      else if d \<le> 3 then
        Some \<lparr> status = js_str ''soon'',
               label = js_str ''Due in '' @ num_str (nat d) @ js_str '' day''
                         @ (if d \<noteq> 1 then js_str ''s'' else []),
               class_name = js_str ''due-upcoming'' \<rparr>
      else
        Some \<lparr> status = js_str ''later'', label = js_str ''Due '' @ fmt due,
               class_name = js_str ''due-upcoming'' \<rparr>) =
          Some \<lparr> status = js_str ''soon'',
                     label = js_str ''Due in '' @ num_str (nat d) @ js_str '' day''
                               @ (if d \<noteq> 1 then js_str ''s'' else []),
                     class_name = js_str ''due-upcoming'' \<rparr>"
        by simp
    next
      assume "3 < d"
      then show "(if d < 0 then
        Some \<lparr> status = js_str ''overdue'',
               label = js_str ''Overdue by '' @ num_str (nat \<bar>d\<bar>) @ js_str '' day''
                         @ (if \<bar>d\<bar> \<noteq> 1 then js_str ''s'' else []),
               class_name = js_str ''due-overdue'' \<rparr>
      else if d = 0 then
        Some \<lparr> status = js_str ''today'', label = js_str ''Due today'',
               class_name = js_str ''due-today'' \<rparr>
      else if d \<le> 3 then
        Some \<lparr> status = js_str ''soon'',
               label = js_str ''Due in '' @ num_str (nat d) @ js_str '' day''
                         @ (if d \<noteq> 1 then js_str ''s'' else []),
               class_name = js_str ''due-upcoming'' \<rparr>
      else
        Some \<lparr> status = js_str ''later'', label = js_str ''Due '' @ fmt due,
               class_name = js_str ''due-upcoming'' \<rparr>) =
          Some \<lparr> status = js_str ''later'', label = js_str ''Due '' @ fmt due,
                     class_name = js_str ''due-upcoming'' \<rparr>"
        by simp
    qed
  qed
  have yesterday:
    "dueDate t = Some s \<and> s \<noteq> [] \<and> dateParse s = Some due
        \<and> due mod 86400000 = 0 \<and> now div 86400000 = due div 86400000 + 1
      \<longrightarrow> dueDateStatus dateParse fmt now t =
              Some \<lparr> status = js_str ''overdue'', label = js_str ''Overdue by 1 day'',
                     class_name = js_str ''due-overdue'' \<rparr>"
  proof (intro impI, elim conjE)
    assume h: "dueDate t = Some s" "s \<noteq> []" "dateParse s = Some due"
      and m: "due mod 86400000 = 0" and n: "now div 86400000 = due div 86400000 + 1"
    define q where "q = due div 86400000"
    define r where "r = now mod 86400000"
    have r: "0 \<le> r" "r < 86400000"
      by (simp_all add: r_def)
    have "due = q * 86400000 + due mod 86400000"
      unfolding q_def by (rule div_mult_mod_eq [symmetric])
    with m have due: "due = q * 86400000"
      by simp
    have "now = now div 86400000 * 86400000 + r"
      unfolding r_def by (rule div_mult_mod_eq [symmetric])
    with n have now: "now = (q + 1) * 86400000 + r"
      by (simp add: q_def)
    have "\<bar>due - now\<bar> < 9007199254740992"
        "(- 1 - 1) * 86400000 < due - now" "due - now \<le> - 1 * 86400000"
      using r by (simp_all add: due now algebra_simps)
    with h have "dueDateStatus dateParse fmt now t =
     (if (- 1 :: int) < 0 then
        Some \<lparr> status = js_str ''overdue'',
               label = js_str ''Overdue by '' @ num_str (nat \<bar>- 1\<bar>) @ js_str '' day''
                         @ (if \<bar>- 1 :: int\<bar> \<noteq> 1 then js_str ''s'' else []),
               class_name = js_str ''due-overdue'' \<rparr>
      else if (- 1 :: int) = 0 then
        Some \<lparr> status = js_str ''today'', label = js_str ''Due today'',
               class_name = js_str ''due-today'' \<rparr>
      else if (- 1 :: int) \<le> 3 then
        Some \<lparr> status = js_str ''soon'',
               label = js_str ''Due in '' @ num_str (nat (- 1)) @ js_str '' day''
                         @ (if (- 1 :: int) \<noteq> 1 then js_str ''s'' else []),
               class_name = js_str ''due-upcoming'' \<rparr>
      else
        Some \<lparr> status = js_str ''later'', label = js_str ''Due '' @ fmt due,
               class_name = js_str ''due-upcoming'' \<rparr>)"
      by (rule chain)
    then show "dueDateStatus dateParse fmt now t =
              Some \<lparr> status = js_str ''overdue'', label = js_str ''Overdue by 1 day'',
                     class_name = js_str ''due-overdue'' \<rparr>"
      by (simp add: num_str_1 js_str_def)
  qed
  from unset classify yesterday show ?thesis
    by (intro conjI)
qed

theorem dueDateStatus_by_day_difference_counterexample:
  "dueDate task_ancient = Some (js_str ''-271821-04-20T00:00:00.000Z'')
   \<and> sample_dateParse (js_str ''-271821-04-20T00:00:00.000Z'') = Some (- 8640000000000000)
   \<and> (- 199999999 - 1) * 86400000 < (- 8640000000000000 - 8639999999999999 :: int)
   \<and> (- 8640000000000000 - 8639999999999999 :: int) \<le> - 199999999 * 86400000
   \<and> dueDateStatus sample_dateParse sample_localeDate 8639999999999999 task_ancient
       = Some \<lparr> status = js_str ''overdue'', label = js_str ''Overdue by 200000000 days'',
                class_name = js_str ''due-overdue'' \<rparr>
   \<and> (1699993800000 + 19800000) div 86400000 = (19676 :: int)
   \<and> dueDate task_due = Some (js_str ''2023-11-14'')
   \<and> sample_dateParse (js_str ''2023-11-14'') = Some (19675 * 86400000)
   \<and> dueDateStatus sample_dateParse sample_localeDate 1699993800000 task_due
       = Some \<lparr> status = js_str ''today'', label = js_str ''Due today'',
                class_name = js_str ''due-today'' \<rparr>"
proof -
  have p: "dueDate task_ancient = Some (js_str ''-271821-04-20T00:00:00.000Z'')"
      "js_str ''-271821-04-20T00:00:00.000Z'' \<noteq> []"
      "sample_dateParse (js_str ''-271821-04-20T00:00:00.000Z'') = Some (- 8640000000000000)"
    by (simp_all add: task_ancient_def sample_dateParse_def js_str_def)
  from p sample_diffDays_extreme
  have "dueDateStatus sample_dateParse sample_localeDate 8639999999999999 task_ancient =
     (if (- 200000000 :: int) < 0 then
        Some \<lparr> status = js_str ''overdue'',
               label = js_str ''Overdue by '' @ num_str (nat \<bar>- 200000000\<bar>) @ js_str '' day''
                         @ (if \<bar>- 200000000 :: int\<bar> \<noteq> 1 then js_str ''s'' else []),
               class_name = js_str ''due-overdue'' \<rparr>
      else if (- 200000000 :: int) = 0 then
        Some \<lparr> status = js_str ''today'', label = js_str ''Due today'',
               class_name = js_str ''due-today'' \<rparr>
      else if (- 200000000 :: int) \<le> 3 then
        Some \<lparr> status = js_str ''soon'',
               label = js_str ''Due in '' @ num_str (nat (- 200000000)) @ js_str '' day''
                         @ (if (- 200000000 :: int) \<noteq> 1 then js_str ''s'' else []),
               class_name = js_str ''due-upcoming'' \<rparr>
      else
        Some \<lparr> status = js_str ''later'',
               label = js_str ''Due '' @ sample_localeDate (- 8640000000000000),
               class_name = js_str ''due-upcoming'' \<rparr>)"
    by (rule dueDateStatus_of_diffDays)
  then have extreme: "dueDateStatus sample_dateParse sample_localeDate 8639999999999999 task_ancient
       = Some \<lparr> status = js_str ''overdue'', label = js_str ''Overdue by 200000000 days'',
                class_name = js_str ''due-overdue'' \<rparr>"
    by (simp add: num_str_200000000 js_str_def)
  have q: "dueDate task_due = Some (js_str ''2023-11-14'')" "js_str ''2023-11-14'' \<noteq> []"
      "sample_dateParse (js_str ''2023-11-14'') = Some 1699920000000"
    by (simp_all add: task_due_def sample_dateParse_def js_str_def)
  have "\<lceil>js_div (js_sub (of_int 1699920000000) (of_int 1699993800000))
      (1000 * 60 * 60 * 24)\<rceil> = 0"
    by (rule diffDays_exact) simp_all
  with q have "dueDateStatus sample_dateParse sample_localeDate 1699993800000 task_due =
      (if (0 :: int) < 0 then
        Some \<lparr> status = js_str ''overdue'',
               label = js_str ''Overdue by '' @ num_str (nat \<bar>0\<bar>) @ js_str '' day''
                         @ (if \<bar>0 :: int\<bar> \<noteq> 1 then js_str ''s'' else []),
               class_name = js_str ''due-overdue'' \<rparr>
      else if (0 :: int) = 0 then
        Some \<lparr> status = js_str ''today'', label = js_str ''Due today'',
               class_name = js_str ''due-today'' \<rparr>
      else if (0 :: int) \<le> 3 then
        Some \<lparr> status = js_str ''soon'',
               label = js_str ''Due in '' @ num_str (nat 0) @ js_str '' day''
                         @ (if (0 :: int) \<noteq> 1 then js_str ''s'' else []),
               class_name = js_str ''due-upcoming'' \<rparr>
      else
        Some \<lparr> status = js_str ''later'', label = js_str ''Due '' @ sample_localeDate 1699920000000,
               class_name = js_str ''due-upcoming'' \<rparr>)"
    by (rule dueDateStatus_of_diffDays)
  then have local: "dueDateStatus sample_dateParse sample_localeDate 1699993800000 task_due
       = Some \<lparr> status = js_str ''today'', label = js_str ''Due today'',
                class_name = js_str ''due-today'' \<rparr>"
    by simp
  have days: "(- 199999999 - 1) * 86400000 < (- 8640000000000000 - 8639999999999999 :: int)"
      "(- 8640000000000000 - 8639999999999999 :: int) \<le> - 199999999 * 86400000"
      "(1699993800000 + 19800000) div 86400000 = (19676 :: int)"
    by simp_all
  from q(3) have q3: "sample_dateParse (js_str ''2023-11-14'') = Some (19675 * 86400000)"
    by simp
  from p(1) p(3) days(1) days(2) extreme days(3) q(1) q3 local show ?thesis
    by (intro conjI)
qed

theorem dueDateStatus_by_day_difference_witness:
  "dueDate task_milk = None
   \<and> dueDateStatus sample_dateParse sample_localeDate 1700000000000 task_milk = None
   \<and> dueDate task_due = Some (js_str ''2023-11-14'')
   \<and> sample_dateParse (js_str ''2023-11-14'') = Some 1699920000000
   \<and> dueDateStatus sample_dateParse sample_localeDate 1700120000000 task_due
       = Some \<lparr> status = js_str ''overdue'', label = js_str ''Overdue by 2 days'',
                class_name = js_str ''due-overdue'' \<rparr>
   \<and> dueDateStatus sample_dateParse sample_localeDate 1700000000000 task_due
       = Some \<lparr> status = js_str ''today'', label = js_str ''Due today'',
                class_name = js_str ''due-today'' \<rparr>
   \<and> dueDateStatus sample_dateParse sample_localeDate 1699833600000 task_due
       = Some \<lparr> status = js_str ''soon'', label = js_str ''Due in 1 day'',
                class_name = js_str ''due-upcoming'' \<rparr>
   \<and> dueDateStatus sample_dateParse sample_localeDate 1699500000000 task_due
       = Some \<lparr> status = js_str ''later'', label = js_str ''Due 11/14/2023'',
                class_name = js_str ''due-upcoming'' \<rparr>
   \<and> (1699920000000 :: int) mod 86400000 = 0
   \<and> (1700010000000 :: int) div 86400000 = 1699920000000 div 86400000 + 1
   \<and> dueDateStatus sample_dateParse sample_localeDate 1700010000000 task_due
       = Some \<lparr> status = js_str ''overdue'', label = js_str ''Overdue by 1 day'',
                class_name = js_str ''due-overdue'' \<rparr>"
proof -
  note T = dueDateStatus_by_day_difference [where dateParse = sample_dateParse
      and fmt = sample_localeDate and s = "js_str ''2023-11-14''" and due = 1699920000000]
  have n: "dueDate task_milk = None"
    by (simp add: task_milk_def)
  have p: "dueDate task_due = Some (js_str ''2023-11-14'')" "js_str ''2023-11-14'' \<noteq> []"
      "sample_dateParse (js_str ''2023-11-14'') = Some 1699920000000"
    by (simp_all add: task_due_def sample_dateParse_def js_str_def)
  have 0: "dueDateStatus sample_dateParse sample_localeDate 1700000000000 task_milk = None"
    using T [where t = task_milk and now = 1700000000000 and d = 0] n by blast
  have 1: "dueDateStatus sample_dateParse sample_localeDate 1700120000000 task_due
       = Some \<lparr> status = js_str ''overdue'',
                label = js_str ''Overdue by '' @ num_str (nat \<bar>- 2\<bar>) @ js_str '' day''
                               @ (if \<bar>- 2 :: int\<bar> \<noteq> 1 then js_str ''s'' else []),
                class_name = js_str ''due-overdue'' \<rparr>"
    using T [where t = task_due and now = 1700120000000 and d = "- 2"] p by simp
  have 2: "dueDateStatus sample_dateParse sample_localeDate 1700000000000 task_due
       = Some \<lparr> status = js_str ''today'', label = js_str ''Due today'',
                class_name = js_str ''due-today'' \<rparr>"
    using T [where t = task_due and now = 1700000000000 and d = 0] p by simp
  have 3: "dueDateStatus sample_dateParse sample_localeDate 1699833600000 task_due
       = Some \<lparr> status = js_str ''soon'',
                label = js_str ''Due in '' @ num_str (nat 1) @ js_str '' day''
                               @ (if (1 :: int) \<noteq> 1 then js_str ''s'' else []),
                class_name = js_str ''due-upcoming'' \<rparr>"
    using T [where t = task_due and now = 1699833600000 and d = 1] p by simp
  have 4: "dueDateStatus sample_dateParse sample_localeDate 1699500000000 task_due
       = Some \<lparr> status = js_str ''later'',
                label = js_str ''Due '' @ sample_localeDate 1699920000000,
                class_name = js_str ''due-upcoming'' \<rparr>"
    using T [where t = task_due and now = 1699500000000 and d = 5] p by simp
  have m: "(1699920000000 :: int) mod 86400000 = 0"
      "(1700010000000 :: int) div 86400000 = 1699920000000 div 86400000 + 1"
    by simp_all
  have 5: "dueDateStatus sample_dateParse sample_localeDate 1700010000000 task_due
       = Some \<lparr> status = js_str ''overdue'', label = js_str ''Overdue by 1 day'',
                class_name = js_str ''due-overdue'' \<rparr>"
    using T [where t = task_due and now = 1700010000000 and d = 0] p m by blast
  have s2: "num_str 2 = js_str ''2''" "num_str (Suc 0) = js_str ''1''" "num_str 1 = js_str ''1''"
    by (simp_all add: num_str.simps js_str_def)
  have l: "sample_localeDate 1699920000000 = js_str ''11/14/2023''"
    by (simp add: sample_localeDate_def)
  from 1 have a1: "dueDateStatus sample_dateParse sample_localeDate 1700120000000 task_due
       = Some \<lparr> status = js_str ''overdue'', label = js_str ''Overdue by 2 days'',
                class_name = js_str ''due-overdue'' \<rparr>"
    by (simp add: s2 js_str_def)
  from 3 have a3: "dueDateStatus sample_dateParse sample_localeDate 1699833600000 task_due
       = Some \<lparr> status = js_str ''soon'', label = js_str ''Due in 1 day'',
                class_name = js_str ''due-upcoming'' \<rparr>"
    by (simp add: s2 js_str_def)
  from 4 have a4: "dueDateStatus sample_dateParse sample_localeDate 1699500000000 task_due
       = Some \<lparr> status = js_str ''later'', label = js_str ''Due 11/14/2023'',
                class_name = js_str ''due-upcoming'' \<rparr>"
    by (simp add: l js_str_def)
  from n 0 p(1) p(3) a1 2 a3 a4 m 5 show ?thesis
    by (intro conjI)
qed

section \<open>Validation\<close>

text \<open>
  C5 (amended). For every form state: the text error is "required" if and only if the text
  is empty or consists of whitespace only; it is "too long" if and only if the text is not
  whitespace-only and has more than 100 code units (a whitespace-only text of any length
  gets "required" alone); there is no text error otherwise. The description error is "too
  long" if and only if the description has more than 300 code units. An empty or unreadable
  due date gives no due date error. For a date-only due date denoting day \<open>k\<close> (read as UTC
  midnight), in a time zone at or east of UTC (offset from 0 to less than a day), the due
  date error is "cannot be in the past" if and only if \<open>k\<close> is strictly before today's local
  calendar day. \<open>validateForm\<close> stores these errors and returns true exactly when there is
  none; it only reads the form state.
\<close>

theorem validateForm_errors:
  "(text_error (newErrors dateParse tz now f) = Some (js_str ''Task title is required'')
      \<longleftrightarrow> (\<forall>c \<in> set (text_form f). isWhiteSpace c))
   \<and> (text_error (newErrors dateParse tz now f) = Some (js_str ''Title cannot exceed 100 characters'')
      \<longleftrightarrow> \<not> (\<forall>c \<in> set (text_form f). isWhiteSpace c) \<and> 100 < length (text_form f))
   \<and> (text_error (newErrors dateParse tz now f) = None
      \<longleftrightarrow> \<not> (\<forall>c \<in> set (text_form f). isWhiteSpace c) \<and> length (text_form f) \<le> 100)
   \<and> (description_error (newErrors dateParse tz now f)
        = Some (js_str ''Description cannot exceed 300 characters'')
      \<longleftrightarrow> 300 < length (description_form f))
   \<and> (description_error (newErrors dateParse tz now f) = None
      \<longleftrightarrow> length (description_form f) \<le> 300)
   \<and> (dueDate_form f = [] \<or> dateParse (dueDate_form f) = None
      \<longrightarrow> dueDate_error (newErrors dateParse tz now f) = None)
   \<and> (dueDate_form f \<noteq> [] \<and> dateParse (dueDate_form f) = Some (k * 86400000)
        \<and> 0 \<le> tz \<and> tz < 86400000
      \<longrightarrow> (dueDate_error (newErrors dateParse tz now f)
             = Some (js_str ''Due date cannot be in the past'')
           \<longleftrightarrow> k < (now + tz) div 86400000)
        \<and> (dueDate_error (newErrors dateParse tz now f) = None
           \<longleftrightarrow> (now + tz) div 86400000 \<le> k))
   \<and> validateForm dateParse tz now f
       = (newErrors dateParse tz now f,
          text_error (newErrors dateParse tz now f) = None
          \<and> description_error (newErrors dateParse tz now f) = None
          \<and> dueDate_error (newErrors dateParse tz now f) = None)"
proof -
  have t1: "text_error (newErrors dateParse tz now f) = Some (js_str ''Task title is required'')
      \<longleftrightarrow> (\<forall>c \<in> set (text_form f). isWhiteSpace c)"
    using error_messages_differ
    by (simp add: newErrors_def trim_eq_Nil [symmetric])
  have t2: "text_error (newErrors dateParse tz now f)
        = Some (js_str ''Title cannot exceed 100 characters'')
      \<longleftrightarrow> \<not> (\<forall>c \<in> set (text_form f). isWhiteSpace c) \<and> 100 < length (text_form f)"
    using error_messages_differ
    by (simp add: newErrors_def trim_eq_Nil [symmetric])
  have t3: "text_error (newErrors dateParse tz now f) = None
      \<longleftrightarrow> \<not> (\<forall>c \<in> set (text_form f). isWhiteSpace c) \<and> length (text_form f) \<le> 100"
    by (auto simp add: newErrors_def trim_eq_Nil [symmetric])
  have d1: "description_error (newErrors dateParse tz now f)
        = Some (js_str ''Description cannot exceed 300 characters'')
      \<longleftrightarrow> 300 < length (description_form f)"
    by (auto simp add: newErrors_def)
  have d2: "description_error (newErrors dateParse tz now f) = None
      \<longleftrightarrow> length (description_form f) \<le> 300"
    by (auto simp add: newErrors_def)
  have e1: "dueDate_form f = [] \<or> dateParse (dueDate_form f) = None
      \<longrightarrow> dueDate_error (newErrors dateParse tz now f) = None"
    by (auto simp add: newErrors_def)
  have e2: "dueDate_form f \<noteq> [] \<and> dateParse (dueDate_form f) = Some (k * 86400000)
        \<and> 0 \<le> tz \<and> tz < 86400000
      \<longrightarrow> (dueDate_error (newErrors dateParse tz now f)
             = Some (js_str ''Due date cannot be in the past'')
           \<longleftrightarrow> k < (now + tz) div 86400000)
        \<and> (dueDate_error (newErrors dateParse tz now f) = None
           \<longleftrightarrow> (now + tz) div 86400000 \<le> k)"
  proof (intro impI, elim conjE)
    assume ne: "dueDate_form f \<noteq> []" and p: "dateParse (dueDate_form f) = Some (k * 86400000)"
      and tz: "0 \<le> tz" "tz < 86400000"
    have m: "k * 86400000 < setHours0 tz now \<longleftrightarrow> k < (now + tz) div 86400000"
      using tz by (rule before_local_midnight)
    have "dueDate_error (newErrors dateParse tz now f)
        = (if k * 86400000 < setHours0 tz now
           then Some (js_str ''Due date cannot be in the past'') else None)"
      using ne p by (simp add: newErrors_def Let_def)
    then show "(dueDate_error (newErrors dateParse tz now f)
             = Some (js_str ''Due date cannot be in the past'')
           \<longleftrightarrow> k < (now + tz) div 86400000)
        \<and> (dueDate_error (newErrors dateParse tz now f) = None
           \<longleftrightarrow> (now + tz) div 86400000 \<le> k)"
      by (simp only: m) auto
  qed
  have v: "validateForm dateParse tz now f
       = (newErrors dateParse tz now f,
          text_error (newErrors dateParse tz now f) = None
          \<and> description_error (newErrors dateParse tz now f) = None
          \<and> dueDate_error (newErrors dateParse tz now f) = None)"
    by (simp add: validateForm_def Let_def)
  from t1 t2 t3 d1 d2 e1 e2 v show ?thesis
    by (intro conjI)
qed

theorem validateForm_errors_counterexample:
  "100 < length (text_form form_blank)
   \<and> text_error (newErrors sample_dateParse 0 1700000000000 form_blank)
       \<noteq> Some (js_str ''Title cannot exceed 100 characters'')"
proof -
  have "trim (text_form form_blank) = []"
    unfolding trim_eq_Nil by (simp add: form_blank_def isWhiteSpace_def)
  then have "text_error (newErrors sample_dateParse 0 1700000000000 form_blank)
      = Some (js_str ''Task title is required'')"
    by (simp add: newErrors_def)
  moreover have "100 < length (text_form form_blank)"
    by (simp add: form_blank_def)
  ultimately show ?thesis
    using error_messages_differ by simp
qed

theorem validateForm_errors_witness:
  "isWhiteSpace 0x20
   \<and> text_error (newErrors sample_dateParse 19800000 1700010000000 form_blank)
       = Some (js_str ''Task title is required'')
   \<and> dueDate_error (newErrors sample_dateParse 19800000 1700010000000 form_blank) = None
   \<and> \<not> isWhiteSpace 0x46 \<and> text_form form_today = js_str ''File taxes''
   \<and> text_error (newErrors sample_dateParse 19800000 1700010000000 form_today) = None
   \<and> description_error (newErrors sample_dateParse 19800000 1700010000000 form_today) = None
   \<and> sample_dateParse (dueDate_form form_today) = Some (19675 * 86400000)
   \<and> (19675 :: int) < (1700010000000 + 19800000) div 86400000
   \<and> dueDate_error (newErrors sample_dateParse 19800000 1700010000000 form_today)
       = Some (js_str ''Due date cannot be in the past'')
   \<and> (1699950000000 + 19800000) div 86400000 \<le> (19675 :: int)
   \<and> dueDate_error (newErrors sample_dateParse 19800000 1699950000000 form_today) = None
   \<and> snd (validateForm sample_dateParse 19800000 1699950000000 form_today)"
proof -
  note B = validateForm_errors [where dateParse = sample_dateParse and tz = 19800000
      and now = 1700010000000 and f = form_blank and k = 0]
  note P = validateForm_errors [where dateParse = sample_dateParse and tz = 19800000
      and now = 1700010000000 and f = form_today and k = 19675]
  note Q = validateForm_errors [where dateParse = sample_dateParse and tz = 19800000
      and now = 1699950000000 and f = form_today and k = 19675]
  have w: "isWhiteSpace 0x20" "\<not> isWhiteSpace 0x46"
    by (simp_all add: isWhiteSpace_def)
  have b: "\<forall>c \<in> set (text_form form_blank). isWhiteSpace c" "dueDate_form form_blank = []"
    by (simp_all add: form_blank_def w)
  have tx: "text_form form_today = js_str ''File taxes''"
    by (simp add: form_today_def)
  have f: "\<not> (\<forall>c \<in> set (text_form form_today). isWhiteSpace c)"
      "length (text_form form_today) \<le> 100" "length (description_form form_today) \<le> 300"
    by (simp_all add: form_today_def js_str_def isWhiteSpace_def)
  have g: "dueDate_form form_today \<noteq> []"
      "sample_dateParse (dueDate_form form_today) = Some (19675 * 86400000)"
      "(0 :: int) \<le> 19800000" "(19800000 :: int) < 86400000"
    by (simp_all add: form_today_def sample_dateParse_def js_str_def)
  have k: "(19675 :: int) < (1700010000000 + 19800000) div 86400000"
      "(1699950000000 + 19800000) div 86400000 \<le> (19675 :: int)"
    by simp_all
  from B b have 1: "text_error (newErrors sample_dateParse 19800000 1700010000000 form_blank)
       = Some (js_str ''Task title is required'')"
    and 2: "dueDate_error (newErrors sample_dateParse 19800000 1700010000000 form_blank) = None"
    by blast+
  from P f have 3: "text_error (newErrors sample_dateParse 19800000 1700010000000 form_today) = None"
    and 4: "description_error (newErrors sample_dateParse 19800000 1700010000000 form_today) = None"
    by blast+
  from P g k(1) have 5: "dueDate_error (newErrors sample_dateParse 19800000 1700010000000 form_today)
       = Some (js_str ''Due date cannot be in the past'')"
    by blast
  from Q g k(2) have 6: "dueDate_error (newErrors sample_dateParse 19800000 1699950000000 form_today) = None"
    by blast
  from Q f have 7: "text_error (newErrors sample_dateParse 19800000 1699950000000 form_today) = None"
    and 8: "description_error (newErrors sample_dateParse 19800000 1699950000000 form_today) = None"
    by blast+
  from Q have "validateForm sample_dateParse 19800000 1699950000000 form_today
       = (newErrors sample_dateParse 19800000 1699950000000 form_today,
          text_error (newErrors sample_dateParse 19800000 1699950000000 form_today) = None
          \<and> description_error (newErrors sample_dateParse 19800000 1699950000000 form_today) = None
          \<and> dueDate_error (newErrors sample_dateParse 19800000 1699950000000 form_today) = None)"
    by blast
  with 6 7 8 have 9: "snd (validateForm sample_dateParse 19800000 1699950000000 form_today)"
    by simp
  from w(1) 1 2 w(2) tx 3 4 g(2) k(1) 5 k(2) 6 9 show ?thesis
    by (intro conjI)
qed

section \<open>Toggling twice\<close>

text \<open>
  C6 (amended). With the clock held at \<open>isoNow\<close>, toggling an id twice leaves the order,
  the \<open>completed\<close> flag and every field other than \<open>completedAt\<close> of every task as they
  were, and sets \<open>completedAt\<close> of each task with that id to \<open>isoNow\<close> if the task is
  completed and to null if it is not. So the collection is the original one whenever every
  task with that id already has \<open>completedAt\<close> equal to \<open>isoNow\<close> when completed and null
  when not. (A task completed at an earlier time comes back with \<open>completedAt\<close> moved to
  \<open>isoNow\<close>: the counterexample.)
\<close>

theorem toggleTask_twice:
  "toggleTask isoNow i (toggleTask isoNow i ts)
     = map (\<lambda>t. if id_task t = i
                then t\<lparr> completedAt := (if completed t then Some isoNow else None) \<rparr>
                else t) ts
   \<and> ((\<forall>t \<in> set ts. id_task t = i \<longrightarrow>
          completedAt t = (if completed t then Some isoNow else None))
        \<longrightarrow> toggleTask isoNow i (toggleTask isoNow i ts) = ts)"
proof -
  have eq: "toggleTask isoNow i (toggleTask isoNow i ts)
     = map (\<lambda>t. if id_task t = i
                then t\<lparr> completedAt := (if completed t then Some isoNow else None) \<rparr>
                else t) ts"
    by (simp add: toggleTask_def)
  have "toggleTask isoNow i (toggleTask isoNow i ts) = ts"
    if h: "\<forall>t \<in> set ts. id_task t = i \<longrightarrow>
          completedAt t = (if completed t then Some isoNow else None)"
    unfolding eq
  proof (rule map_idI)
    fix t assume "t \<in> set ts"
    with h show "(if id_task t = i
                then t\<lparr> completedAt := (if completed t then Some isoNow else None) \<rparr>
                else t) = t"
      by (cases "id_task t = i") auto
  qed
  with eq show ?thesis
    by blast
qed

theorem toggleTask_twice_counterexample:
  "toggleTask (js_str ''2023-11-16T00:00:00.000Z'') (id_task task_done)
     (toggleTask (js_str ''2023-11-16T00:00:00.000Z'') (id_task task_done) [task_done])
   \<noteq> [task_done]"
  by (simp add: toggleTask_def task_done_def js_str_def)

theorem toggleTask_twice_witness:
  "completedAt task_milk = None \<and> \<not> completed task_milk
   \<and> toggleTask (js_str ''2023-11-16T00:00:00.000Z'') (id_task task_milk)
       (toggleTask (js_str ''2023-11-16T00:00:00.000Z'') (id_task task_milk) [task_milk, task_done])
     = [task_milk, task_done]
   \<and> completedAt task_done = Some (js_str ''2023-11-15T08:00:00.000Z'') \<and> completed task_done
   \<and> toggleTask (js_str ''2023-11-15T08:00:00.000Z'') (id_task task_done)
       (toggleTask (js_str ''2023-11-15T08:00:00.000Z'') (id_task task_done) [task_milk, task_done])
     = [task_milk, task_done]"
proof -
  have m: "completedAt task_milk = None" "\<not> completed task_milk"
    and d: "completedAt task_done = Some (js_str ''2023-11-15T08:00:00.000Z'')" "completed task_done"
    and ne: "id_task task_done \<noteq> id_task task_milk"
    by (simp_all add: task_milk_def task_done_def)
  have h1: "\<forall>t \<in> set [task_milk, task_done]. id_task t = id_task task_milk \<longrightarrow>
      completedAt t = (if completed t then Some (js_str ''2023-11-16T00:00:00.000Z'') else None)"
    using m ne by simp
  have h2: "\<forall>t \<in> set [task_milk, task_done]. id_task t = id_task task_done \<longrightarrow>
      completedAt t = (if completed t then Some (js_str ''2023-11-15T08:00:00.000Z'') else None)"
    using d ne by simp
  from toggleTask_twice [of "js_str ''2023-11-16T00:00:00.000Z''" "id_task task_milk"
      "[task_milk, task_done]"] h1
  have 1: "toggleTask (js_str ''2023-11-16T00:00:00.000Z'') (id_task task_milk)
       (toggleTask (js_str ''2023-11-16T00:00:00.000Z'') (id_task task_milk) [task_milk, task_done])
     = [task_milk, task_done]"
    by blast
  from toggleTask_twice [of "js_str ''2023-11-15T08:00:00.000Z''" "id_task task_done"
      "[task_milk, task_done]"] h2
  have 2: "toggleTask (js_str ''2023-11-15T08:00:00.000Z'') (id_task task_done)
       (toggleTask (js_str ''2023-11-15T08:00:00.000Z'') (id_task task_done) [task_milk, task_done])
     = [task_milk, task_done]"
    by blast
  from m 1 d 2 show ?thesis
    by (intro conjI)
qed

section \<open>Clearing completed tasks\<close>

text \<open>
  C7. \<open>clearCompleted\<close> keeps exactly the tasks that are not completed: the result is a
  subsequence of the collection (same relative order, every retained task unchanged), each
  task that is not completed occurs as often as before, no completed task remains, and a
  collection without completed tasks is returned as it is.
\<close>

theorem clearCompleted_keeps_pending:
  "subseq (clearCompleted ts) ts
   \<and> (\<forall>t. \<not> completed t \<longrightarrow> count_list (clearCompleted ts) t = count_list ts t)
   \<and> (\<forall>t \<in> set (clearCompleted ts). \<not> completed t)
   \<and> length (filter completed (clearCompleted ts)) = 0
   \<and> ((\<forall>t \<in> set ts. \<not> completed t) \<longrightarrow> clearCompleted ts = ts)"
proof -
  have "\<not> completed t \<Longrightarrow> count_list (clearCompleted ts) t = count_list ts t" for t
    by (induction ts) (auto simp: clearCompleted_def)
  moreover have "length (filter completed (clearCompleted ts)) = 0"
    by (simp add: clearCompleted_def)
  moreover have "(\<forall>t \<in> set ts. \<not> completed t) \<longrightarrow> clearCompleted ts = ts"
    by (simp add: clearCompleted_def)
  ultimately show ?thesis
    by (simp add: clearCompleted_def)
qed

theorem clearCompleted_keeps_pending_witness:
  "\<not> completed task_milk
   \<and> count_list (clearCompleted [task_done, task_milk, task_done]) task_milk = 1
   \<and> clearCompleted [task_milk, task_milk] = [task_milk, task_milk]"
proof -
  have p: "\<not> completed task_milk"
    by (simp add: task_milk_def)
  have "count_list (clearCompleted [task_done, task_milk, task_done]) task_milk
          = count_list [task_done, task_milk, task_done] task_milk"
    using clearCompleted_keeps_pending [of "[task_done, task_milk, task_done]"] p by blast
  then have c: "count_list (clearCompleted [task_done, task_milk, task_done]) task_milk = 1"
    by (simp add: task_done_neq_milk)
  have q: "\<forall>t \<in> set [task_milk, task_milk]. \<not> completed t"
    by (simp add: p)
  have "clearCompleted [task_milk, task_milk] = [task_milk, task_milk]"
    using clearCompleted_keeps_pending [of "[task_milk, task_milk]"] q by blast
  with p c show ?thesis
    by blast
qed

section \<open>Mutations with an unknown id\<close>

text \<open>
  C8. When no task of the collection has the given id, \<open>toggleTask\<close>, \<open>updateTask\<close> (with
  any \<open>updates\<close>) and \<open>deleteTask\<close> each return the collection as it was. The three
  operations are total functions: there is no error branch.
\<close>

theorem unknown_id_is_noop:
  assumes "i \<notin> id_task ` set ts"
  shows "toggleTask isoNow i ts = ts \<and> updateTask i u ts = ts \<and> deleteTask i ts = ts"
proof -
  from assms have ne: "\<And>t. t \<in> set ts \<Longrightarrow> id_task t \<noteq> i"
    by auto
  have "toggleTask isoNow i ts = ts"
    unfolding toggleTask_def by (rule map_idI) (simp add: ne)
  moreover have "updateTask i u ts = ts"
    unfolding updateTask_def by (rule map_idI) (simp add: ne)
  moreover have "deleteTask i ts = ts"
    unfolding deleteTask_def by (simp add: ne)
  ultimately show ?thesis
    by simp
qed

theorem unknown_id_is_noop_witness:
  "42 \<notin> id_task ` set [task_milk, task_done]
   \<and> toggleTask (js_str ''2023-11-16T00:00:00.000Z'') 42 [task_milk, task_done]
       = [task_milk, task_done]
   \<and> updateTask 42 \<lparr> id_upd = None, text_upd = Some (js_str ''x''), description_upd = None,
         priority_upd = None, dueDate_upd = None, completed_upd = Some True,
         createdAt_upd = None, completedAt_upd = None \<rparr> [task_milk, task_done]
       = [task_milk, task_done]
   \<and> deleteTask 42 [task_milk, task_done] = [task_milk, task_done]"
proof -
  have h: "42 \<notin> id_task ` set [task_milk, task_done]"
    by (simp add: task_milk_def task_done_def)
  show ?thesis
    using h unknown_id_is_noop [OF h] by simp
qed

section \<open>Filtered views\<close>

text \<open>
  C9. For every collection, the \<open>'all'\<close> view is the collection itself; the \<open>'pending'\<close>
  view lists, by increasing position, the tasks whose \<open>completed\<close> flag is false, and the
  \<open>'completed'\<close> view those whose flag is true; putting the position-tagged
  \<open>'completed'\<close> and \<open>'pending'\<close> views back together by original position gives the
  \<open>'all'\<close> view.
\<close>

theorem filtered_views_partition:
  "getFilteredTasks (js_str ''all'') ts = ts
   \<and> getFilteredTasks (js_str ''pending'') ts
        = map snd (filter (\<lambda>z. \<not> completed (snd z)) (enumerate 0 ts))
   \<and> getFilteredTasks (js_str ''completed'') ts
        = map snd (filter (\<lambda>z. completed (snd z)) (enumerate 0 ts))
   \<and> map snd (interleave_by_position
                 (filter (\<lambda>z. completed (snd z)) (enumerate 0 ts))
                 (filter (\<lambda>z. \<not> completed (snd z)) (enumerate 0 ts)))
        = getFilteredTasks (js_str ''all'') ts"
proof -
  have all: "getFilteredTasks (js_str ''all'') ts = ts"
    by (simp add: getFilteredTasks_def js_str_def)
  have pen: "getFilteredTasks (js_str ''pending'') ts = filter (\<lambda>t. \<not> completed t) ts"
    by (simp add: getFilteredTasks_def js_str_def)
  have com: "getFilteredTasks (js_str ''completed'') ts = filter completed ts"
    by (simp add: getFilteredTasks_def)
  have "interleave_by_position
          (filter (\<lambda>z. completed (snd z)) (enumerate 0 ts))
          (filter (\<lambda>z. \<not> completed (snd z)) (enumerate 0 ts)) = enumerate 0 ts"
    by (rule interleave_filter) (rule sorted_enumerate)
  then show ?thesis
    by (simp add: all pen com map_snd_filter_enumerate [of "\<lambda>t. \<not> completed t"]
        map_snd_filter_enumerate [of completed])
qed

text \<open>
  C10. A filter value that is neither \<open>'completed'\<close> nor \<open>'pending'\<close> (so \<open>'all'\<close>, and
  any unrecognised string) takes the \<open>default\<close> branch: \<open>getFilteredTasks\<close> returns the
  whole collection, unchanged.
\<close>

theorem getFilteredTasks_default:
  assumes "flt \<noteq> js_str ''completed''" and "flt \<noteq> js_str ''pending''"
  shows "getFilteredTasks flt ts = ts"
  using assms by (simp add: getFilteredTasks_def)

theorem getFilteredTasks_default_witness:
  "js_str ''all'' \<noteq> js_str ''completed'' \<and> js_str ''all'' \<noteq> js_str ''pending''
   \<and> getFilteredTasks (js_str ''all'') [task_done, task_milk] = [task_done, task_milk]
   \<and> js_str ''done'' \<noteq> js_str ''completed'' \<and> js_str ''done'' \<noteq> js_str ''pending''
   \<and> getFilteredTasks (js_str ''done'') [task_done, task_milk] = [task_done, task_milk]"
proof -
  have a: "js_str ''all'' \<noteq> js_str ''completed''" "js_str ''all'' \<noteq> js_str ''pending''"
    and b: "js_str ''done'' \<noteq> js_str ''completed''" "js_str ''done'' \<noteq> js_str ''pending''"
    by (simp_all add: js_str_def)
  show ?thesis
    using a b getFilteredTasks_default [OF a] getFilteredTasks_default [OF b] by simp
qed

end
